theory Spec2Isabelle
  imports Complex_Main
begin

section \<open>RedParrot: the streaming interview pipeline\<close>

text \<open>
  A shallow embedding of the TypeScript services of the repository:
  \<^item> \<^verbatim>\<open>asr-service.ts\<close> (class \<^verbatim>\<open>ASRService\<close>),
  \<^item> \<^verbatim>\<open>question-detector.ts\<close> (class \<^verbatim>\<open>QuestionDetectorService\<close>),
  \<^item> \<^verbatim>\<open>ai-service.ts\<close> (class \<^verbatim>\<open>AIAnswerService\<close>),
  \<^item> the audio capture service (class \<^verbatim>\<open>AudioCaptureService\<close>),
  \<^item> the interview pipeline (class \<^verbatim>\<open>InterviewPipeline\<close>) and the part of the store it writes.

  Conventions. A class instance is a record of its fields and every method takes the
  record and returns the updated one. Field names that several interfaces of the source
  share carry a prefix here (\<open>tr_\<close>, \<open>q_\<close>, \<open>ga_\<close>, \<open>pc_\<close>, \<open>ai_\<close>, \<open>store_\<close>,
  \<open>chunk_\<close>). \<^verbatim>\<open>Date.now()\<close> is a parameter. A JavaScript
  \<^verbatim>\<open>number\<close> that holds a count or a time in milliseconds is an \<open>int\<close>; the
  confidence score is a \<open>rat\<close> and an audio sample a \<open>real\<close>, so the rounding of
  IEEE doubles is not part of the model. A string is a \<open>string\<close> whose characters
  are read as ASCII code units: case mapping and the white space class are those of
  ASCII. An exception is the \<open>Inl\<close> of a sum. An \<^verbatim>\<open>async\<close> method is cut at its
  \<^verbatim>\<open>await\<close> on a backend call: the part before the call and the continuation after it
  are separate functions, and a run is a list of events (a call arriving, a backend
  call settling) handled one at a time, as the single-threaded event loop does.
\<close>

subsection \<open>JavaScript string operations\<close>

text \<open>
  The string methods and regular expressions the services use, on ASCII text.
  \<^verbatim>\<open>\s\<close> and \<^verbatim>\<open>trim\<close> take the white space characters TAB, LF, VT, FF, CR and
  SPACE; \<^verbatim>\<open>\w\<close> takes letters, digits and the underscore; \<^verbatim>\<open>.\<close> takes every
  character but the line terminators LF and CR.
\<close>

definition isWhiteSpace :: "char \<Rightarrow> bool" where
  "isWhiteSpace c \<longleftrightarrow> (let n = (of_char c :: nat) in (9 \<le> n \<and> n \<le> 13) \<or> n = 32)"

definition isWordChar :: "char \<Rightarrow> bool" where
  "isWordChar c \<longleftrightarrow>
     (let n = (of_char c :: nat)
      in (48 \<le> n \<and> n \<le> 57) \<or> (65 \<le> n \<and> n \<le> 90) \<or> n = 95 \<or> (97 \<le> n \<and> n \<le> 122))"

definition isLineTerminator :: "char \<Rightarrow> bool" where
  "isLineTerminator c \<longleftrightarrow> (let n = (of_char c :: nat) in n = 10 \<or> n = 13)"

definition toLowerChar :: "char \<Rightarrow> char" where
  "toLowerChar c =
     (let n = (of_char c :: nat) in if 65 \<le> n \<and> n \<le> 90 then char_of (n + 32) else c)"

definition toUpperChar :: "char \<Rightarrow> char" where
  "toUpperChar c =
     (let n = (of_char c :: nat) in if 97 \<le> n \<and> n \<le> 122 then char_of (n - 32) else c)"

definition js_toLowerCase :: "string \<Rightarrow> string" where
  "js_toLowerCase s = map toLowerChar s"

definition js_trim :: "string \<Rightarrow> string" where
  "js_trim s = rev (dropWhile isWhiteSpace (rev (dropWhile isWhiteSpace s)))"

text \<open>\<^verbatim>\<open>s.startsWith(p)\<close>, character by character.\<close>

fun js_startsWith :: "string \<Rightarrow> string \<Rightarrow> bool" where
  "js_startsWith s [] = True"
| "js_startsWith [] (p # ps) = False"
| "js_startsWith (c # cs) (p # ps) = (if c = p then js_startsWith cs ps else False)"

definition js_endsWith :: "string \<Rightarrow> string \<Rightarrow> bool" where
  "js_endsWith s p \<longleftrightarrow> length p \<le> length s \<and> drop (length s - length p) s = p"

text \<open>\<^verbatim>\<open>s.includes(p)\<close>: \<open>p\<close> occurs in \<open>s\<close>; the empty string occurs in every string.\<close>

fun js_includes :: "string \<Rightarrow> string \<Rightarrow> bool" where
  "js_includes [] p = (p = [])"
| "js_includes (c # cs) p = (if js_startsWith (c # cs) p then True else js_includes cs p)"

text \<open>\<^verbatim>\<open>s.indexOf(p)\<close>, with \<open>None\<close> for \<^verbatim>\<open>-1\<close>.\<close>

fun js_indexOf_from :: "nat \<Rightarrow> string \<Rightarrow> string \<Rightarrow> nat option" where
  "js_indexOf_from i [] p = (if p = [] then Some i else None)"
| "js_indexOf_from i (c # cs) p =
     (if js_startsWith (c # cs) p then Some i else js_indexOf_from (Suc i) cs p)"

definition js_indexOf :: "string \<Rightarrow> string \<Rightarrow> nat option" where
  "js_indexOf s p = js_indexOf_from 0 s p"

text \<open>\<^verbatim>\<open>s.slice(-n)\<close>: the last \<open>n\<close> characters, the whole string when it is shorter.\<close>

definition js_slice_last :: "nat \<Rightarrow> string \<Rightarrow> string" where
  "js_slice_last n s = drop (length s - n) s"

text \<open>
  \<^verbatim>\<open>s.split(' ')\<close>: the pieces between single occurrences of the separator, empty
  pieces included; the empty string gives one empty piece.
\<close>

fun js_split_go :: "char \<Rightarrow> string \<Rightarrow> string \<Rightarrow> string list" where
  "js_split_go sep cur [] = [rev cur]"
| "js_split_go sep cur (c # cs) =
     (if c = sep then rev cur # js_split_go sep [] cs else js_split_go sep (c # cur) cs)"

definition js_split :: "char \<Rightarrow> string \<Rightarrow> string list" where
  "js_split sep s = js_split_go sep [] s"

text \<open>
  \<^verbatim>\<open>s.split(/\s+/)\<close>: the pieces between maximal runs of white space. A run at the
  start or at the end of the string leaves an empty piece there. The flag says that
  the previous character belonged to a run.
\<close>

fun js_split_ws_go :: "string \<Rightarrow> bool \<Rightarrow> string \<Rightarrow> string list" where
  "js_split_ws_go cur inrun [] = [rev cur]"
| "js_split_ws_go cur inrun (c # cs) =
     (if isWhiteSpace c then
        (if inrun then js_split_ws_go cur True cs else rev cur # js_split_ws_go [] True cs)
      else js_split_ws_go (c # cur) False cs)"

definition js_split_ws :: "string \<Rightarrow> string list" where
  "js_split_ws s = js_split_ws_go [] False s"

text \<open>
  The regular expressions of the pattern table are sequences of literals and
  \<^verbatim>\<open>.+\<close>, all with the flag \<^verbatim>\<open>i\<close> and none with \<^verbatim>\<open>g\<close>. \<open>match_here\<close> is the
  backtracking matcher anchored at the start of the string: a literal is compared
  without regard to case, \<^verbatim>\<open>.+\<close> is greedy and gives characters back one at a time. It
  returns the length of the match. \<open>js_match\<close> tries every start position from the
  left and returns the index and the length of the first match.
\<close>

datatype atom = Lit string | AnyPlus

type_synonym regex = "atom list"

fun ci_startsWith :: "string \<Rightarrow> string \<Rightarrow> bool" where
  "ci_startsWith s [] = True"
| "ci_startsWith [] (p # ps) = False"
| "ci_startsWith (c # cs) (p # ps) =
     (if toLowerChar c = toLowerChar p then ci_startsWith cs ps else False)"

fun firstSome :: "'a option list \<Rightarrow> 'a option" where
  "firstSome [] = None"
| "firstSome (None # xs) = firstSome xs"
| "firstSome (Some x # xs) = Some x"

fun match_here :: "regex \<Rightarrow> string \<Rightarrow> nat option" where
  "match_here [] s = Some 0"
| "match_here (Lit l # r) s =
     (if ci_startsWith s l
      then map_option (\<lambda>n. length l + n) (match_here r (drop (length l) s))
      else None)"
| "match_here (AnyPlus # r) s =
     (let m = length (takeWhile (\<lambda>c. \<not> isLineTerminator c) s)
      in firstSome (map (\<lambda>k. map_option (\<lambda>n. k + n) (match_here r (drop k s)))
                        (rev [1..<Suc m])))"

fun js_match_from :: "nat \<Rightarrow> regex \<Rightarrow> string \<Rightarrow> (nat \<times> nat) option" where
  "js_match_from i r [] = map_option (\<lambda>n. (i, n)) (match_here r [])"
| "js_match_from i r (c # cs) =
     (case match_here r (c # cs) of
        Some n \<Rightarrow> Some (i, n)
      | None \<Rightarrow> js_match_from (Suc i) r cs)"

definition js_match :: "regex \<Rightarrow> string \<Rightarrow> (nat \<times> nat) option" where
  "js_match r s = js_match_from 0 r s"

definition js_test :: "regex \<Rightarrow> string \<Rightarrow> bool" where
  "js_test r s \<longleftrightarrow> js_match r s \<noteq> None"

text \<open>
  \<^verbatim>\<open>text.match(/\b(w1|w2|...)\b/gi)\<close>: all matches of one of the words, standing
  between two word boundaries, from left to right. Every word of the two tables
  consists of letters, so a match starts after a character that is not a word
  character (or at the start) and ends before one (or at the end); the characters
  inside a match follow a word character and start no match, so the scan may advance
  by one character. \<open>prev\<close> says that the previous character is a word character. The
  result lists the matched substrings as they stand in the text.
\<close>

definition word_at :: "string list \<Rightarrow> string \<Rightarrow> string option" where
  "word_at ws s =
     firstSome (map (\<lambda>w. if ci_startsWith s w \<and>
                             (case drop (length w) s of [] \<Rightarrow> True | c # _ \<Rightarrow> \<not> isWordChar c)
                          then Some (take (length w) s) else None) ws)"

fun js_match_words_go :: "string list \<Rightarrow> bool \<Rightarrow> string \<Rightarrow> string list" where
  "js_match_words_go ws prev [] = []"
| "js_match_words_go ws prev (c # cs) =
     (case (if prev then None else word_at ws (c # cs)) of
        Some m \<Rightarrow> m # js_match_words_go ws (isWordChar c) cs
      | None \<Rightarrow> js_match_words_go ws (isWordChar c) cs)"

definition js_match_words :: "string list \<Rightarrow> string \<Rightarrow> string list" where
  "js_match_words ws s = js_match_words_go ws False s"

subsection \<open>ASRService: the transcription client\<close>

datatype ASRProvider = ASR_groq | ASR_whisper_local | ASR_auto

record ASRConfig =
  provider :: ASRProvider
  groqApiKey :: string
  language :: string
  translateToEnglish :: bool

record TranscriptionResult =
  tr_text :: string
  tr_language :: string
  tr_confidence :: rat
  tr_duration :: rat
  tr_timestamp :: int

record ASRService =
  config :: ASRConfig
  isProcessing :: bool
  pendingRequests :: int
  maxConcurrentRequests :: int

definition ASR_DEFAULT_CONFIG :: ASRConfig where
  "ASR_DEFAULT_CONFIG =
     \<lparr>provider = ASR_groq, groqApiKey = [], language = ''en'', translateToEnglish = True\<rparr>"

text \<open>The constructor: \<^verbatim>\<open>pendingRequests = 0\<close>, \<^verbatim>\<open>maxConcurrentRequests = 2\<close>.\<close>

definition new_ASRService :: "ASRConfig \<Rightarrow> ASRService" where
  "new_ASRService cfg =
     \<lparr>config = cfg, isProcessing = False, pendingRequests = 0, maxConcurrentRequests = 2\<rparr>"

text \<open>\<^verbatim>\<open>initialize\<close>: false exactly for the provider groq without an API key.\<close>

definition initialize :: "ASRService \<Rightarrow> bool" where
  "initialize s =
     (if provider (config s) = ASR_groq \<and> groqApiKey (config s) = [] then False else True)"

text \<open>
  \<^verbatim>\<open>transcribe\<close>, up to its first \<^verbatim>\<open>await\<close>. The guard returns \<^verbatim>\<open>null\<close> at once
  (\<open>False\<close>: nothing is dispatched); otherwise the counter is incremented and the
  backend section starts (\<open>True\<close>).
\<close>

definition transcribe_enter :: "ASRService \<Rightarrow> bool \<times> ASRService" where
  "transcribe_enter s =
     (if pendingRequests s \<ge> maxConcurrentRequests s then (False, s)
      else (True, s\<lparr>pendingRequests := pendingRequests s + 1\<rparr>))"

text \<open>
  The rest of \<^verbatim>\<open>transcribe\<close>. The parameter is what the \<^verbatim>\<open>try\<close> block came to:
  \<open>Inr r\<close> when it reached \<^verbatim>\<open>return result\<close> (\<open>r = None\<close> is \<^verbatim>\<open>null\<close>), \<open>Inl e\<close>
  when it threw, which the \<^verbatim>\<open>catch\<close> turns into \<^verbatim>\<open>null\<close>. The \<^verbatim>\<open>finally\<close> block
  decrements the counter on both paths.
\<close>

definition transcribe_exit ::
  "string + TranscriptionResult option \<Rightarrow> ASRService \<Rightarrow> TranscriptionResult option \<times> ASRService" where
  "transcribe_exit outcome s =
     (let result = (case outcome of Inr r \<Rightarrow> r | Inl e \<Rightarrow> None)
      in (result, s\<lparr>pendingRequests := pendingRequests s - 1\<rparr>))"

text \<open>
  A run of the client. \<open>Arrive k\<close> is a call of \<^verbatim>\<open>transcribe\<close> for frame \<open>k\<close>;
  \<open>Settle k outcome\<close> is the end of the backend section of the call for frame \<open>k\<close>.
  \<open>inflight\<close> lists the frames whose backend section is running, \<open>returned\<close> the
  values the calls have resolved to, \<open>dispatched\<close> every frame that reached the
  backend. A \<open>Settle\<close> for a frame that is not in flight has no continuation to run.
\<close>

datatype asr_event = Arrive nat | Settle nat "string + TranscriptionResult option"

record asr_run =
  service :: ASRService
  inflight :: "nat list"
  dispatched :: "nat list"
  returned :: "(nat \<times> TranscriptionResult option) list"

definition asr_init :: "ASRConfig \<Rightarrow> asr_run" where
  "asr_init cfg = \<lparr>service = new_ASRService cfg, inflight = [], dispatched = [], returned = []\<rparr>"

fun asr_step :: "asr_run \<Rightarrow> asr_event \<Rightarrow> asr_run" where
  "asr_step r (Arrive k) =
     (case transcribe_enter (service r) of
        (False, s) \<Rightarrow> r\<lparr>service := s, returned := returned r @ [(k, None)]\<rparr>
      | (True, s) \<Rightarrow> r\<lparr>service := s, inflight := inflight r @ [k],
                        dispatched := dispatched r @ [k]\<rparr>)"
| "asr_step r (Settle k outcome) =
     (if k \<in> set (inflight r) then
        (case transcribe_exit outcome (service r) of
           (res, s) \<Rightarrow> r\<lparr>service := s, inflight := remove1 k (inflight r),
                        returned := returned r @ [(k, res)]\<rparr>)
      else r)"

definition asr_exec :: "asr_run \<Rightarrow> asr_event list \<Rightarrow> asr_run" where
  "asr_exec r evs = foldl asr_step r evs"

text \<open>The invariant of a run: the counter counts the calls in flight and respects the cap.\<close>

definition asr_inv :: "asr_run \<Rightarrow> bool" where
  "asr_inv r \<longleftrightarrow>
     pendingRequests (service r) = int (length (inflight r)) \<and>
     pendingRequests (service r) \<le> maxConcurrentRequests (service r) \<and>
     maxConcurrentRequests (service r) = 2"

subsection \<open>QuestionDetectorService\<close>

datatype QuestionType =
  behavioral | technical | situational | competency | coding | system_design
  | general | clarification

datatype AnswerFormat = STAR | fmt_technical | concise | detailed

record DetectedQuestion =
  q_text :: string
  q_type :: QuestionType
  q_confidence :: rat
  q_keywords :: "string list"
  q_suggestedAnswerFormat :: AnswerFormat
  q_timestamp :: int

text \<open>The table \<^verbatim>\<open>QUESTION_PATTERNS\<close>, in the order of its keys and of each array.\<close>

definition QUESTION_PATTERNS :: "(QuestionType \<times> regex list) list" where
  "QUESTION_PATTERNS =
   [(behavioral,
      [[Lit ''tell me about a time when''],
       [Lit ''describe a situation where''],
       [Lit ''give me an example of''],
       [Lit ''have you ever had to''],
       [Lit ''can you share an experience''],
       [Lit ''walk me through a time''],
       [Lit ''describe a challenge you faced''],
       [Lit ''tell me about your experience with''],
       [Lit ''how did you handle''],
       [Lit ''what did you do when''],
       [Lit ''describe the most difficult''],
       [Lit ''tell me about a project'']]),
    (technical,
      [[Lit ''how does '', AnyPlus, Lit '' work''],
       [Lit ''what is the difference between''],
       [Lit ''explain '', AnyPlus, Lit '' to me''],
       [Lit ''how would you implement''],
       [Lit ''what are the advantages of''],
       [Lit ''can you explain''],
       [Lit ''what is your understanding of''],
       [Lit ''describe how '', AnyPlus, Lit '' works''],
       [Lit ''what happens when''],
       [Lit ''why would you use''],
       [Lit ''compare '', AnyPlus, Lit '' and''],
       [Lit (''what'' @ [CHR 0x27] @ ''s the time complexity'')],
       [Lit ''how do you optimize'']]),
    (situational,
      [[Lit ''what would you do if''],
       [Lit ''how would you approach''],
       [Lit ''imagine you''],
       [Lit ''suppose you''],
       [Lit ''if you were''],
       [Lit ''how would you handle''],
       [Lit ''what if''],
       [Lit (''let'' @ [CHR 0x27] @ ''s say'')],
       [Lit ''hypothetically'']]),
    (competency,
      [[Lit ''what are your strengths''],
       [Lit ''what is your greatest''],
       [Lit ''how do you prioritize''],
       [Lit ''how do you manage''],
       [Lit (''what'' @ [CHR 0x27] @ ''s your approach to'')],
       [Lit ''how do you stay''],
       [Lit ''what motivates you''],
       [Lit ''how do you deal with'']]),
    (coding,
      [[Lit ''write a function''],
       [Lit ''implement '', AnyPlus, Lit '' algorithm''],
       [Lit ''solve this problem''],
       [Lit ''code a solution''],
       [Lit ''write code to''],
       [Lit ''can you code''],
       [Lit ''leetcode''],
       [Lit ''hackerrank''],
       [Lit ''data structure''],
       [Lit ''reverse '', AnyPlus, Lit '' string''],
       [Lit ''find '', AnyPlus, Lit '' in '', AnyPlus, Lit '' array''],
       [Lit ''sort '', AnyPlus, Lit '' array'']]),
    (system_design,
      [[Lit ''design a system''],
       [Lit ''how would you design''],
       [Lit ''architect '', AnyPlus, Lit '' solution''],
       [Lit ''scale '', AnyPlus, Lit '' to''],
       [Lit ''design '', AnyPlus, Lit '' like''],
       [Lit ''build '', AnyPlus, Lit '' from scratch''],
       [Lit ''high-level design''],
       [Lit ''system architecture'']])]"

definition QUESTION_INDICATORS :: "string list" where
  "QUESTION_INDICATORS =
     [''what'', ''why'', ''how'', ''when'', ''where'', ''who'', ''which'',
      ''can you'', ''could you'', ''would you'', ''do you'', ''did you'',
      ''tell me'', ''describe'', ''explain'', ''share'', ''walk me through'']"

definition QUESTION_END_INDICATORS :: "string list" where
  "QUESTION_END_INDICATORS = [''?'', ''please'', ''thank you'', ''go ahead'']"

text \<open>The alternatives of the two word expressions of the class.\<close>

definition QUESTION_WORDS :: "string list" where
  "QUESTION_WORDS =
     [''what'', ''how'', ''why'', ''when'', ''where'', ''who'', ''which'',
      ''tell'', ''describe'', ''explain'']"

definition TECHNICAL_TERMS :: "string list" where
  "TECHNICAL_TERMS =
     [''api'', ''database'', ''algorithm'', ''function'', ''class'', ''system'', ''design'',
      ''performance'', ''security'', ''testing'', ''deployment'']"

record QuestionDetectorService =
  transcriptionBuffer :: string
  lastQuestionTime :: int
  minQuestionGapMs :: int
  detectedQuestions :: "DetectedQuestion list"
  lastProcessedText :: string

definition new_QuestionDetectorService :: QuestionDetectorService where
  "new_QuestionDetectorService =
     \<lparr>transcriptionBuffer = [], lastQuestionTime = 0, minQuestionGapMs = 2000,
      detectedQuestions = [], lastProcessedText = []\<rparr>"

definition isCompleteSentence :: "string \<Rightarrow> bool" where
  "isCompleteSentence text =
     (let trimmed = js_trim text in
      if trimmed \<noteq> [] \<and> last trimmed \<in> set ''.?!'' then True
      else if list_ex (\<lambda>indicator. js_includes (js_toLowerCase trimmed) indicator)
                QUESTION_END_INDICATORS then True
      else
        (let words = js_split_ws trimmed in
         if length words \<ge> 8 then
           (let firstWord = js_toLowerCase (hd words) in
            if list_ex (\<lambda>q. js_includes firstWord q) QUESTION_INDICATORS then True
            else False)
         else False))"

definition looksLikeQuestion :: "string \<Rightarrow> bool" where
  "looksLikeQuestion text =
     (if js_includes text ''?'' then True
      else if list_ex (\<lambda>indicator. js_startsWith text (indicator @ '' '') \<or>
                                    js_startsWith text (indicator @ '',''))
                QUESTION_INDICATORS then True
      else if list_ex (\<lambda>phrase. js_includes text phrase)
                [''tell me about'', ''walk me through'', ''describe'', ''explain'',
                 ''what is your'', ''how do you'', ''why do you''] then True
      else False)"

definition calculateConfidence :: "string \<Rightarrow> regex \<Rightarrow> rat" where
  "calculateConfidence text pattern =
     (if js_match pattern text = None then 0
      else
        (let confidence = 6 / 10;
             confidence = (if js_includes text ''?'' then confidence + 2 / 10 else confidence);
             questionWords = js_match_words QUESTION_WORDS text;
             confidence = (if length questionWords > 1 then confidence + 1 / 10 else confidence);
             confidence = (if length (js_split (CHR '' '') text) < 5
                           then confidence - 2 / 10 else confidence)
         in min 1 (max 0 confidence)))"

text \<open>
  \<^verbatim>\<open>extractKeywords\<close>. \<^verbatim>\<open>[...new Set(keywords)]\<close> keeps the first occurrence of
  every keyword. \<^verbatim>\<open>indexOf\<close> finds the matched text, so the branch for \<^verbatim>\<open>-1\<close> is
  never taken; it is written as \<^verbatim>\<open>slice\<close> behaves there.
\<close>

definition extractKeywords :: "string \<Rightarrow> regex \<Rightarrow> string list" where
  "extractKeywords text pattern =
     (let fromMatch =
            (case js_match pattern text of
               None \<Rightarrow> []
             | Some (i, n) \<Rightarrow>
                 (let m0 = take n (drop i text);
                      afterMatch =
                        (case js_indexOf text m0 of
                           Some j \<Rightarrow> drop (j + n) text
                         | None \<Rightarrow> if n = 0 then js_slice_last 1 text else drop (n - 1) text);
                      words = filter (\<lambda>w. length w > 3 \<and>
                                  w \<notin> set [''the'', ''and'', ''for'', ''with'', ''that'', ''this'',
                                            ''your'', ''about''])
                                (js_split_ws afterMatch)
                  in take 5 words));
          technicalTerms = js_match_words TECHNICAL_TERMS text;
          keywords = fromMatch @ map js_toLowerCase technicalTerms
      in rev (remdups (rev keywords)))"

definition cleanQuestionText :: "string \<Rightarrow> string" where
  "cleanQuestionText text =
     (let cleaned = js_trim text;
          cleaned = (case cleaned of [] \<Rightarrow> [] | c # cs \<Rightarrow> toUpperChar c # cs)
      in if \<not> js_endsWith cleaned ''?'' \<and> \<not> js_endsWith cleaned ''.'' \<and>
            \<not> js_endsWith cleaned ''!''
         then cleaned @ ''?'' else cleaned)"

fun getSuggestedFormat :: "QuestionType \<Rightarrow> AnswerFormat" where
  "getSuggestedFormat behavioral = STAR"
| "getSuggestedFormat situational = STAR"
| "getSuggestedFormat technical = fmt_technical"
| "getSuggestedFormat coding = fmt_technical"
| "getSuggestedFormat system_design = detailed"
| "getSuggestedFormat competency = concise"
| "getSuggestedFormat clarification = concise"
| "getSuggestedFormat general = concise"

text \<open>
  The two nested loops of \<^verbatim>\<open>analyzeForQuestion\<close> over the table. The loop state is
  \<open>(matchedType, highestConfidence, matchedKeywords)\<close>.
\<close>

definition analyze_pattern ::
  "string \<Rightarrow> QuestionType \<Rightarrow> QuestionType \<times> rat \<times> string list \<Rightarrow> regex
     \<Rightarrow> QuestionType \<times> rat \<times> string list" where
  "analyze_pattern normalizedText ty st pattern =
     (case st of (matchedType, highestConfidence, matchedKeywords) \<Rightarrow>
        if js_test pattern normalizedText then
          (let confidence = calculateConfidence normalizedText pattern in
           if confidence > highestConfidence
           then (ty, confidence, extractKeywords normalizedText pattern)
           else st)
        else st)"

definition analyze_patterns ::
  "string \<Rightarrow> QuestionType \<times> rat \<times> string list \<Rightarrow> QuestionType \<times> rat \<times> string list" where
  "analyze_patterns normalizedText st0 =
     foldl (\<lambda>st (ty, patterns). foldl (analyze_pattern normalizedText ty) st patterns)
       st0 QUESTION_PATTERNS"

text \<open>\<open>tq\<close> is the value of \<^verbatim>\<open>Date.now()\<close> read for the time stamp of the question.\<close>

definition analyzeForQuestion :: "int \<Rightarrow> string \<Rightarrow> DetectedQuestion option" where
  "analyzeForQuestion tq text =
     (let normalizedText = js_toLowerCase (js_trim text) in
      if \<not> looksLikeQuestion normalizedText then None
      else
        (case analyze_patterns normalizedText (general, 0, []) of
           (matchedType, highestConfidence, matchedKeywords) \<Rightarrow>
             (let highestConfidence =
                    (if highestConfidence = 0 \<and> looksLikeQuestion normalizedText
                     then 5 / 10 else highestConfidence)
              in if highestConfidence < 3 / 10 then None
                 else Some \<lparr>q_text = cleanQuestionText text,
                            q_type = matchedType,
                            q_confidence = highestConfidence,
                            q_keywords = matchedKeywords,
                            q_suggestedAnswerFormat = getSuggestedFormat matchedType,
                            q_timestamp = tq\<rparr>)))"

text \<open>
  \<^verbatim>\<open>detectQuestion\<close>. \<open>now\<close> is the value of \<^verbatim>\<open>Date.now()\<close> read for the gap
  between questions. The result is the returned question (\<open>None\<close> for \<^verbatim>\<open>null\<close>) and
  the detector after the call.
\<close>

definition detectQuestion ::
  "int \<Rightarrow> int \<Rightarrow> string \<Rightarrow> QuestionDetectorService
     \<Rightarrow> DetectedQuestion option \<times> QuestionDetectorService" where
  "detectQuestion tq now transcriptionText s =
     (if transcriptionText = lastProcessedText s then (None, s)
      else
        (let s = s\<lparr>lastProcessedText := transcriptionText\<rparr>;
             s = (if \<not> js_includes (transcriptionBuffer s) transcriptionText
                  then s\<lparr>transcriptionBuffer := transcriptionBuffer s @ '' '' @ transcriptionText\<rparr>
                  else s);
             s = s\<lparr>transcriptionBuffer := js_trim (transcriptionBuffer s)\<rparr>;
             s = (if length (transcriptionBuffer s) > 400
                  then s\<lparr>transcriptionBuffer := js_slice_last 300 (transcriptionBuffer s)\<rparr>
                  else s)
         in if \<not> isCompleteSentence (transcriptionBuffer s) then (None, s)
            else
              (case analyzeForQuestion tq (transcriptionBuffer s) of
                 Some question \<Rightarrow>
                   if now - lastQuestionTime s < minQuestionGapMs s then (None, s)
                   else (Some question,
                         s\<lparr>lastQuestionTime := now,
                           detectedQuestions := detectedQuestions s @ [question],
                           transcriptionBuffer := [],
                           lastProcessedText := []\<rparr>)
               | None \<Rightarrow> (None, s))))"

text \<open>
  The buffer as the first part of \<^verbatim>\<open>detectQuestion\<close> leaves it for a fragment that
  is not skipped: appended unless the buffer contains the fragment, trimmed, and cut
  to its last 300 characters when longer than 400.
\<close>

definition buffer_after :: "string \<Rightarrow> QuestionDetectorService \<Rightarrow> string" where
  "buffer_after transcriptionText s =
     (let b = (if \<not> js_includes (transcriptionBuffer s) transcriptionText
               then transcriptionBuffer s @ '' '' @ transcriptionText
               else transcriptionBuffer s);
          b = js_trim b
      in if length b > 400 then js_slice_last 300 b else b)"

text \<open>\<^verbatim>\<open>clearBuffer\<close> and \<^verbatim>\<open>clearHistory\<close>.\<close>

definition clearBuffer :: "QuestionDetectorService \<Rightarrow> QuestionDetectorService" where
  "clearBuffer s = s\<lparr>transcriptionBuffer := [], lastProcessedText := []\<rparr>"

definition clearHistory :: "QuestionDetectorService \<Rightarrow> QuestionDetectorService" where
  "clearHistory s = s\<lparr>detectedQuestions := [], transcriptionBuffer := []\<rparr>"

subsection \<open>AIAnswerService\<close>

datatype AnswerLength = short | medium | long

record GeneratedAnswer =
  ga_text :: string
  ga_length :: AnswerLength
  ga_estimatedDuration :: int
  ga_format :: AnswerFormat
  ga_generatedAt :: int

datatype AIProvider = AI_groq | AI_ollama | AI_auto

record AIServiceConfig =
  ai_provider :: AIProvider
  ai_groqApiKey :: string

text \<open>\<^verbatim>\<open>LENGTH_CONFIG[length].duration\<close>.\<close>

fun LENGTH_CONFIG_duration :: "AnswerLength \<Rightarrow> int" where
  "LENGTH_CONFIG_duration short = 30"
| "LENGTH_CONFIG_duration medium = 60"
| "LENGTH_CONFIG_duration long = 90"

text \<open>
  \<^verbatim>\<open>formatAnswer\<close>. The two replacements remove, at the start of the text and
  without regard to case, the first alternative that stands there and the white space
  after it.
\<close>

definition strip_leading :: "string list \<Rightarrow> string \<Rightarrow> string" where
  "strip_leading alts s =
     (case firstSome (map (\<lambda>a. if ci_startsWith s a then Some (length a) else None) alts) of
        Some n \<Rightarrow> dropWhile isWhiteSpace (drop n s)
      | None \<Rightarrow> s)"

definition formatAnswer :: "string \<Rightarrow> string" where
  "formatAnswer text =
     (let formatted = js_trim text;
          formatted = strip_leading
            [''Here'' @ [CHR 0x27] @ ''s'', ''Here is'', ''Sure,'', ''Of course,'', ''Certainly,'']
            formatted;
          formatted = strip_leading
            [''I'' @ [CHR 0x27] @ ''d be happy to'', ''I'' @ [CHR 0x27] @ ''ll'', ''Let me'']
            formatted
      in case formatted of [] \<Rightarrow> [] | c # cs \<Rightarrow> toUpperChar c # cs)"

text \<open>
  What the two backends answer to the request for one answer length: \<open>Inr\<close> the text
  of the completion, \<open>Inl\<close> the message of the error that \<^verbatim>\<open>fetch\<close> or the check of
  \<^verbatim>\<open>response.ok\<close> throws. \<open>reply_at\<close> is \<^verbatim>\<open>Date.now()\<close> when the answer is built.
\<close>

record backend_reply =
  groq_reply :: "string + string"
  ollama_reply :: "string + string"
  reply_at :: int

definition generateWithGroq :: "AIServiceConfig \<Rightarrow> backend_reply \<Rightarrow> string + string" where
  "generateWithGroq cfg b =
     (if ai_groqApiKey cfg = [] then Inl ''Groq API key not configured'' else groq_reply b)"

definition generateWithOllama :: "AIServiceConfig \<Rightarrow> backend_reply \<Rightarrow> string + string" where
  "generateWithOllama cfg b = ollama_reply b"

text \<open>
  \<^verbatim>\<open>generateAnswer\<close>: \<open>Inl\<close> is the rejection of the promise. The \<^verbatim>\<open>default\<close>
  branch of the switch is outside the type of the provider.
\<close>

definition generateAnswer ::
  "AIServiceConfig \<Rightarrow> DetectedQuestion \<Rightarrow> AnswerLength \<Rightarrow> backend_reply
     \<Rightarrow> string + GeneratedAnswer" where
  "generateAnswer cfg question len b =
     (let response =
            (case ai_provider cfg of
               AI_groq \<Rightarrow> generateWithGroq cfg b
             | AI_ollama \<Rightarrow> generateWithOllama cfg b
             | AI_auto \<Rightarrow>
                 (case generateWithGroq cfg b of
                    Inr t \<Rightarrow> Inr t
                  | Inl e \<Rightarrow> generateWithOllama cfg b))
      in case response of
           Inl e \<Rightarrow> Inl e
         | Inr responseText \<Rightarrow>
             Inr \<lparr>ga_text = formatAnswer responseText,
                  ga_length = len,
                  ga_estimatedDuration = LENGTH_CONFIG_duration len,
                  ga_format = q_suggestedAnswerFormat question,
                  ga_generatedAt = reply_at b\<rparr>)"

text \<open>
  \<^verbatim>\<open>Promise.all\<close> over the three calls, in the array order short, medium, long.
  \<open>order\<close> is the order in which the three promises settle. The result is \<open>None\<close>
  while \<^verbatim>\<open>Promise.all\<close> is pending, \<open>Some (Inl e)\<close> when it rejects, with the error
  of the first promise that rejected, and \<open>Some (Inr (s, m, l))\<close> when all three are
  fulfilled.
\<close>

fun first_rejected :: "AnswerLength list \<Rightarrow> (AnswerLength \<Rightarrow> string + 'a) \<Rightarrow> string option" where
  "first_rejected [] f = None"
| "first_rejected (len # order) f =
     (case f len of Inl e \<Rightarrow> Some e | Inr v \<Rightarrow> first_rejected order f)"

definition promise_all3 ::
  "AnswerLength list \<Rightarrow> (AnswerLength \<Rightarrow> string + 'a) \<Rightarrow> (string + 'a \<times> 'a \<times> 'a) option" where
  "promise_all3 order f =
     (case first_rejected order f of
        Some e \<Rightarrow> Some (Inl e)
      | None \<Rightarrow>
          if short \<in> set order \<and> medium \<in> set order \<and> long \<in> set order then
            (case (f short, f medium, f long) of
               (Inr s, Inr m, Inr l) \<Rightarrow> Some (Inr (s, m, l))
             | _ \<Rightarrow> None)
          else None)"

text \<open>
  \<^verbatim>\<open>generateAllLengths\<close>: the value of the returned promise; \<open>Inl\<close> is the exception
  that the caller's \<^verbatim>\<open>await\<close> throws.
\<close>

definition generateAllLengths ::
  "AIServiceConfig \<Rightarrow> DetectedQuestion \<Rightarrow> AnswerLength list \<Rightarrow> (AnswerLength \<Rightarrow> backend_reply)
     \<Rightarrow> (string + GeneratedAnswer \<times> GeneratedAnswer \<times> GeneratedAnswer) option" where
  "generateAllLengths cfg question order replies =
     promise_all3 order (\<lambda>len. generateAnswer cfg question len (replies len))"

subsection \<open>AudioCaptureService: the chunk timer\<close>







subsection \<open>The store fields written by the pipeline\<close>

record Answers =
  ans_short :: "GeneratedAnswer option"
  ans_medium :: "GeneratedAnswer option"
  ans_long :: "GeneratedAnswer option"

record InterviewStore =
  currentTranscription :: string
  transcriptionHistory :: "TranscriptionResult list"
  currentQuestion :: "DetectedQuestion option"
  currentAnswers :: Answers
  store_isProcessing :: bool
  store_isGenerating :: bool

definition no_answers :: Answers where
  "no_answers = \<lparr>ans_short = None, ans_medium = None, ans_long = None\<rparr>"

definition INITIAL_STATE :: InterviewStore where
  "INITIAL_STATE =
     \<lparr>currentTranscription = [], transcriptionHistory = [], currentQuestion = None,
      currentAnswers = no_answers, store_isProcessing = False, store_isGenerating = False\<rparr>"

definition addTranscriptionResult :: "TranscriptionResult \<Rightarrow> InterviewStore \<Rightarrow> InterviewStore" where
  "addTranscriptionResult result st =
     st\<lparr>transcriptionHistory := transcriptionHistory st @ [result],
        currentTranscription := currentTranscription st @ '' '' @ tr_text result\<rparr>"

definition clearTranscription :: "InterviewStore \<Rightarrow> InterviewStore" where
  "clearTranscription st = st\<lparr>currentTranscription := [], transcriptionHistory := []\<rparr>"

definition setCurrentQuestion :: "DetectedQuestion \<Rightarrow> InterviewStore \<Rightarrow> InterviewStore" where
  "setCurrentQuestion question st =
     st\<lparr>currentQuestion := Some question, store_isProcessing := False\<rparr>"

definition setCurrentAnswers :: "Answers \<Rightarrow> InterviewStore \<Rightarrow> InterviewStore" where
  "setCurrentAnswers answers st = st\<lparr>currentAnswers := answers, store_isGenerating := False\<rparr>"

definition setGenerating :: "bool \<Rightarrow> InterviewStore \<Rightarrow> InterviewStore" where
  "setGenerating g st = st\<lparr>store_isGenerating := g\<rparr>"

subsection \<open>InterviewPipeline\<close>

datatype AudioSource = microphone | system | both

record PipelineConfig =
  pc_groqApiKey :: string
  pc_aiProvider :: AIProvider
  pc_asrProvider :: ASRProvider
  pc_language :: string
  pc_defaultAnswerLength :: AnswerLength
  pc_audioSource :: AudioSource

datatype PipelineStatus =
  idle | initializing | listening | transcribing | detecting | generating | error

text \<open>
  What the observers receive: the calls of the callbacks of \<^verbatim>\<open>PipelineCallbacks\<close> and
  of \<^verbatim>\<open>window.electronAPI.displayAnswer\<close>, in the order in which they are made.
\<close>

datatype observation =
  OnTranscription TranscriptionResult
| OnQuestionDetected DetectedQuestion
| OnAnswerGenerated GeneratedAnswer AnswerLength
| OnError string
| OnStatusChange PipelineStatus
| DisplayAnswer string QuestionType Answers AnswerLength

text \<open>
  The pipeline with the store it writes and the observations made so far.
  \<open>hasElectronAPI\<close> says that \<^verbatim>\<open>window.electronAPI\<close> is defined.
  \<open>awaiting_transcription\<close> lists the chunks whose call of \<^verbatim>\<open>handleAudioChunk\<close> is
  suspended at \<^verbatim>\<open>await this.asrService.transcribe\<close>; \<open>awaiting_generation\<close> lists the
  chunks, with their question, whose call is suspended at the \<^verbatim>\<open>Promise.all\<close> of
  \<^verbatim>\<open>generateAnswers\<close>.
\<close>

record InterviewPipeline =
  pconfig :: PipelineConfig
  status :: PipelineStatus
  isRunning :: bool
  asrService :: ASRService
  questionDetector :: QuestionDetectorService
  aiService :: AIServiceConfig
  store :: InterviewStore
  hasElectronAPI :: bool
  observed :: "observation list"
  awaiting_transcription :: "nat list"
  awaiting_generation :: "(nat \<times> DetectedQuestion) list"

definition new_InterviewPipeline :: "PipelineConfig \<Rightarrow> bool \<Rightarrow> InterviewPipeline" where
  "new_InterviewPipeline cfg api =
     \<lparr>pconfig = cfg, status = idle, isRunning = False,
      asrService = new_ASRService
        (ASR_DEFAULT_CONFIG\<lparr>provider := pc_asrProvider cfg, groqApiKey := pc_groqApiKey cfg,
                             language := pc_language cfg\<rparr>),
      questionDetector = new_QuestionDetectorService,
      aiService = \<lparr>ai_provider = pc_aiProvider cfg, ai_groqApiKey = pc_groqApiKey cfg\<rparr>,
      store = INITIAL_STATE, hasElectronAPI = api, observed = [],
      awaiting_transcription = [], awaiting_generation = []\<rparr>"

definition setStatus :: "PipelineStatus \<Rightarrow> InterviewPipeline \<Rightarrow> InterviewPipeline" where
  "setStatus st p = p\<lparr>status := st, observed := observed p @ [OnStatusChange st]\<rparr>"

definition notify :: "observation \<Rightarrow> InterviewPipeline \<Rightarrow> InterviewPipeline" where
  "notify ob p = p\<lparr>observed := observed p @ [ob]\<rparr>"

text \<open>
  \<^verbatim>\<open>start\<close>. The environment gives the result of the capture method that the
  configured source selects: \<open>mic_ok\<close>, \<open>system_ok\<close> and \<open>combined_ok\<close> are the values
  returned by \<^verbatim>\<open>startMicrophoneCapture\<close>, \<^verbatim>\<open>startSystemAudioCapture\<close> and
  \<^verbatim>\<open>startCombinedCapture\<close> (each catches its errors and returns \<^verbatim>\<open>false\<close> when the
  permission is denied or the device fails); \<open>audio_sources\<close> is what the promise of
  \<^verbatim>\<open>getAudioSources\<close> settles to, \<open>Inl\<close> its rejection.
\<close>

record start_env =
  mic_ok :: bool
  audio_sources :: "string + string list"
  system_ok :: bool
  combined_ok :: bool

definition start_failed :: "string \<Rightarrow> InterviewPipeline \<Rightarrow> bool \<times> InterviewPipeline" where
  "start_failed e p = (False, notify (OnError e) (setStatus error p))"

text \<open>
  The \<^verbatim>\<open>switch\<close> over the audio source: \<open>Inr\<close> the final value of
  \<^verbatim>\<open>captureStarted\<close>, \<open>Inl\<close> the error thrown when \<^verbatim>\<open>getAudioSources\<close> rejects.
  \<open>api\<close> says that \<^verbatim>\<open>window.electronAPI\<close> is defined; without it the sources are
  \<^verbatim>\<open>undefined\<close> and no capture is started.
\<close>

definition captureStarted :: "start_env \<Rightarrow> bool \<Rightarrow> AudioSource \<Rightarrow> string + bool" where
  "captureStarted env api source =
     (case source of
        microphone \<Rightarrow> Inr (mic_ok env)
      | system \<Rightarrow>
          (if \<not> api then Inr False
           else case audio_sources env of
                  Inl e \<Rightarrow> Inl e
                | Inr [] \<Rightarrow> Inr False
                | Inr (src # srcs) \<Rightarrow> Inr (system_ok env))
      | both \<Rightarrow>
          (if \<not> api then Inr False
           else case audio_sources env of
                  Inl e \<Rightarrow> Inl e
                | Inr [] \<Rightarrow> Inr False
                | Inr (src # srcs) \<Rightarrow> Inr (combined_ok env)))"

definition start :: "start_env \<Rightarrow> InterviewPipeline \<Rightarrow> bool \<times> InterviewPipeline" where
  "start env p =
     (if isRunning p then (False, p)
      else
        (let p = setStatus initializing p;
             asrReady = initialize (asrService p)
         in if \<not> asrReady then start_failed ''Failed to initialize ASR service'' p
            else
              (case captureStarted env (hasElectronAPI p) (pc_audioSource (pconfig p)) of
                 Inl e \<Rightarrow> start_failed e p
               | Inr False \<Rightarrow> start_failed ''Failed to start audio capture'' p
               | Inr True \<Rightarrow> (True, setStatus listening (p\<lparr>isRunning := True\<rparr>)))))"

text \<open>\<^verbatim>\<open>stop\<close>.\<close>

definition stop :: "InterviewPipeline \<Rightarrow> InterviewPipeline" where
  "stop p =
     setStatus idle
       (p\<lparr>asrService := (asrService p)\<lparr>isProcessing := False\<rparr>, isRunning := False\<rparr>)"

text \<open>
  \<^verbatim>\<open>handleAudioChunk\<close> up to its \<^verbatim>\<open>await\<close> of \<^verbatim>\<open>transcribe\<close>, for chunk \<open>k\<close>. When
  the client drops the frame, \<^verbatim>\<open>transcribe\<close> has returned \<^verbatim>\<open>null\<close> without a
  backend call and the rest of the handler runs at once.
\<close>

definition handleAudioChunk_enter :: "nat \<Rightarrow> InterviewPipeline \<Rightarrow> InterviewPipeline" where
  "handleAudioChunk_enter k p =
     (if \<not> isRunning p then p
      else
        (let p = setStatus transcribing p in
         case transcribe_enter (asrService p) of
           (False, a) \<Rightarrow> setStatus listening (p\<lparr>asrService := a\<rparr>)
         | (True, a) \<Rightarrow>
             p\<lparr>asrService := a, awaiting_transcription := awaiting_transcription p @ [k]\<rparr>))"

text \<open>
  The rest of \<^verbatim>\<open>handleAudioChunk\<close> for chunk \<open>k\<close>, from the moment the backend section
  of \<^verbatim>\<open>transcribe\<close> ends with \<open>outcome\<close>, through \<^verbatim>\<open>generateAnswers\<close> up to its
  \<^verbatim>\<open>await Promise.all\<close>. The observers' callbacks are taken not to throw.
\<close>

definition handleAudioChunk_transcribed ::
  "nat \<Rightarrow> string + TranscriptionResult option \<Rightarrow> int \<Rightarrow> int
     \<Rightarrow> InterviewPipeline \<Rightarrow> InterviewPipeline" where
  "handleAudioChunk_transcribed k outcome tq now p =
     (if k \<notin> set (awaiting_transcription p) then p
      else
        (case transcribe_exit outcome (asrService p) of
           (transcription, a) \<Rightarrow>
             (let p = p\<lparr>asrService := a,
                        awaiting_transcription := remove1 k (awaiting_transcription p)\<rparr>
              in case transcription of
                   None \<Rightarrow> setStatus listening p
                 | Some t \<Rightarrow>
                     if tr_text t = [] then setStatus listening p
                     else
                       (let p = notify (OnTranscription t) p;
                            p = p\<lparr>store := addTranscriptionResult t (store p)\<rparr>;
                            p = setStatus detecting p
                        in case detectQuestion tq now (tr_text t) (questionDetector p) of
                             (None, d) \<Rightarrow> setStatus listening (p\<lparr>questionDetector := d\<rparr>)
                           | (Some question, d) \<Rightarrow>
                               (let p = p\<lparr>questionDetector := d\<rparr>;
                                    p = p\<lparr>store := clearTranscription (store p)\<rparr>;
                                    p = p\<lparr>store := setCurrentAnswers no_answers (store p)\<rparr>;
                                    p = p\<lparr>store := setCurrentQuestion question (store p)\<rparr>;
                                    p = notify (OnQuestionDetected question) p;
                                    p = setStatus generating p;
                                    p = p\<lparr>store := setGenerating True (store p)\<rparr>
                                in p\<lparr>awaiting_generation :=
                                       awaiting_generation p @ [(k, question)]\<rparr>)))))"

text \<open>\<^verbatim>\<open>answers[this.config.defaultAnswerLength]\<close>.\<close>

fun answer_of :: "Answers \<Rightarrow> AnswerLength \<Rightarrow> GeneratedAnswer option" where
  "answer_of answers short = ans_short answers"
| "answer_of answers medium = ans_medium answers"
| "answer_of answers long = ans_long answers"

text \<open>
  The rest of \<^verbatim>\<open>generateAnswers\<close> for the question of chunk \<open>k\<close>, from the moment its
  \<^verbatim>\<open>Promise.all\<close> settles, with the \<^verbatim>\<open>catch\<close> and \<^verbatim>\<open>finally\<close> blocks, and the last
  statement of \<^verbatim>\<open>handleAudioChunk\<close>. While the \<^verbatim>\<open>Promise.all\<close> is pending nothing
  runs.
\<close>

definition generateAnswers_settled ::
  "nat \<Rightarrow> AnswerLength list \<Rightarrow> (AnswerLength \<Rightarrow> backend_reply)
     \<Rightarrow> InterviewPipeline \<Rightarrow> InterviewPipeline" where
  "generateAnswers_settled k order replies p =
     (case map_of (awaiting_generation p) k of
        None \<Rightarrow> p
      | Some question \<Rightarrow>
          (case promise_all3 order
                  (\<lambda>len. generateAnswer (aiService p) question len (replies len)) of
             None \<Rightarrow> p
           | Some settled \<Rightarrow>
               (let p = p\<lparr>awaiting_generation := remove1 (k, question) (awaiting_generation p)\<rparr>;
                    p =
                      (case settled of
                         Inr (s, m, l) \<Rightarrow>
                           (let answers = \<lparr>ans_short = Some s, ans_medium = Some m,
                                            ans_long = Some l\<rparr>;
                                p = p\<lparr>store := setCurrentAnswers answers (store p)\<rparr>;
                                defaultLength = pc_defaultAnswerLength (pconfig p);
                                p = (case answer_of answers defaultLength of
                                       Some defaultAnswer \<Rightarrow>
                                         notify (OnAnswerGenerated defaultAnswer defaultLength) p
                                     | None \<Rightarrow> p)
                            in if hasElectronAPI p
                               then notify (DisplayAnswer (q_text question) (q_type question)
                                              answers defaultLength) p
                               else p)
                       | Inl e \<Rightarrow> notify (OnError e) p);
                    p = p\<lparr>store := setGenerating False (store p)\<rparr>
                in setStatus listening p)))"

text \<open>
  A run of the pipeline: the calls of \<^verbatim>\<open>start\<close> and \<^verbatim>\<open>stop\<close>, the chunk timer
  handing over chunk \<open>k\<close>, and the backend calls settling, one event at a time.
\<close>

datatype event =
  Ev_start start_env
| Ev_stop
| Ev_chunk nat
| Ev_transcribed nat "string + TranscriptionResult option" int int
| Ev_generated nat "AnswerLength list" "AnswerLength \<Rightarrow> backend_reply"

fun step :: "InterviewPipeline \<Rightarrow> event \<Rightarrow> InterviewPipeline" where
  "step p (Ev_start env) = snd (start env p)"
| "step p Ev_stop = stop p"
| "step p (Ev_chunk k) = handleAudioChunk_enter k p"
| "step p (Ev_transcribed k outcome tq now) = handleAudioChunk_transcribed k outcome tq now p"
| "step p (Ev_generated k order replies) = generateAnswers_settled k order replies p"

definition exec :: "InterviewPipeline \<Rightarrow> event list \<Rightarrow> InterviewPipeline" where
  "exec p evs = foldl step p evs"


subsection \<open>Sample data for the concrete runs\<close>

definition sample_config :: PipelineConfig where
  "sample_config =
     \<lparr>pc_groqApiKey = ''key'', pc_aiProvider = AI_groq, pc_asrProvider = ASR_groq,
      pc_language = ''auto'', pc_defaultAnswerLength = medium, pc_audioSource = microphone\<rparr>"

definition sample_env :: start_env where
  "sample_env = \<lparr>mic_ok = True, audio_sources = Inr [], system_ok = False, combined_ok = False\<rparr>"

definition sample_question :: DetectedQuestion where
  "sample_question =
     \<lparr>q_text = ''What is the difference between TCP and UDP?'', q_type = technical,
      q_confidence = 8 / 10, q_keywords = [''udp?''],
      q_suggestedAnswerFormat = fmt_technical, q_timestamp = 10000\<rparr>"

text \<open>The transcriptions of two chunks, each a complete question.\<close>

definition transcription_A :: TranscriptionResult where
  "transcription_A =
     \<lparr>tr_text = ''What is the difference between TCP and UDP?'', tr_language = ''en'',
      tr_confidence = 1, tr_duration = 3000, tr_timestamp = 10000\<rparr>"

definition transcription_B :: TranscriptionResult where
  "transcription_B =
     \<lparr>tr_text = ''How would you design a rate limiter?'', tr_language = ''en'',
      tr_confidence = 1, tr_duration = 3000, tr_timestamp = 13000\<rparr>"

text \<open>
  Backend replies to the requests for question A, with all three answered and with
  the long answer refused, and to the requests for question B.
\<close>

fun replies_ok :: "AnswerLength \<Rightarrow> backend_reply" where
  "replies_ok short =
     \<lparr>groq_reply = Inr ''TCP is reliable, UDP is not.'', ollama_reply = Inl [], reply_at = 14000\<rparr>"
| "replies_ok medium =
     \<lparr>groq_reply = Inr ''TCP keeps a connection and retransmits; UDP sends datagrams.'',
      ollama_reply = Inl [], reply_at = 14500\<rparr>"
| "replies_ok long =
     \<lparr>groq_reply = Inr ''TCP keeps a connection, orders and retransmits; UDP does neither.'',
      ollama_reply = Inl [], reply_at = 15000\<rparr>"

fun replies_long_fails :: "AnswerLength \<Rightarrow> backend_reply" where
  "replies_long_fails short =
     \<lparr>groq_reply = Inr ''TCP is reliable, UDP is not.'', ollama_reply = Inl [], reply_at = 14000\<rparr>"
| "replies_long_fails medium =
     \<lparr>groq_reply = Inr ''TCP keeps a connection and retransmits; UDP sends datagrams.'',
      ollama_reply = Inl [], reply_at = 14500\<rparr>"
| "replies_long_fails long =
     \<lparr>groq_reply = Inl ''Groq API error: 500 - '', ollama_reply = Inl [], reply_at = 15000\<rparr>"

fun replies_B :: "AnswerLength \<Rightarrow> backend_reply" where
  "replies_B short =
     \<lparr>groq_reply = Inr ''Use a token bucket per client.'', ollama_reply = Inl [],
      reply_at = 13500\<rparr>"
| "replies_B medium =
     \<lparr>groq_reply = Inr ''Use a token bucket per client, kept in a shared store.'',
      ollama_reply = Inl [], reply_at = 13600\<rparr>"
| "replies_B long =
     \<lparr>groq_reply = Inr ''Use a token bucket per client, kept in a shared store with expiry.'',
      ollama_reply = Inl [], reply_at = 13700\<rparr>"

text \<open>
  Two runs of a started pipeline. In the first, chunk 1 is transcribed to question A
  at 10000 and chunk 2 to question B at 13000, with no generation settled. In the
  second, \<^verbatim>\<open>stop\<close> is called while the transcription of chunk 1 is in flight.
\<close>

definition overlapping_questions :: "event list" where
  "overlapping_questions =
     [Ev_start sample_env,
      Ev_chunk 1, Ev_transcribed 1 (Inr (Some transcription_A)) 10000 10000,
      Ev_chunk 2, Ev_transcribed 2 (Inr (Some transcription_B)) 13000 13000]"

definition stop_during_transcription :: "event list" where
  "stop_during_transcription = [Ev_start sample_env, Ev_chunk 1, Ev_stop]"

text \<open>Readers of a run: the pending generations by question text, and two kinds of callback.\<close>

definition pending_questions :: "InterviewPipeline \<Rightarrow> (nat \<times> string) list" where
  "pending_questions p = map (\<lambda>(k, q). (k, q_text q)) (awaiting_generation p)"

fun is_OnQuestionDetected :: "observation \<Rightarrow> bool" where
  "is_OnQuestionDetected (OnQuestionDetected q) = True"
| "is_OnQuestionDetected ob = False"

fun is_OnAnswerGenerated :: "observation \<Rightarrow> bool" where
  "is_OnAnswerGenerated (OnAnswerGenerated a len) = True"
| "is_OnAnswerGenerated ob = False"

section \<open>Verified properties\<close>

subsection \<open>The concurrency cap of the transcription client\<close>

lemma asr_inv_init: "asr_inv (asr_init cfg)"
  by (simp add: asr_inv_def asr_init_def new_ASRService_def)

lemma asr_inv_step: "asr_inv r \<Longrightarrow> asr_inv (asr_step r ev)"
proof (cases ev)
  case (Arrive k)
  assume "asr_inv r"
  then show ?thesis
    using Arrive by (auto simp: asr_inv_def transcribe_enter_def)
next
  case (Settle k outcome)
  assume inv: "asr_inv r"
  show ?thesis
  proof (cases "k \<in> set (inflight r)")
    case True
    then obtain n where "length (inflight r) = Suc n"
      by (cases "inflight r") auto
    with True have "int (length (remove1 k (inflight r))) = int (length (inflight r)) - 1"
      by (simp add: length_remove1)
    then show ?thesis
      using inv Settle True by (simp add: asr_inv_def transcribe_exit_def)
  next
    case False
    then show ?thesis using inv Settle by simp
  qed
qed

lemma asr_inv_foldl: "asr_inv r \<Longrightarrow> asr_inv (foldl asr_step r evs)"
  by (induction evs arbitrary: r) (simp_all add: asr_inv_step)

lemma asr_inv_exec: "asr_inv (asr_exec (asr_init cfg) evs)"
  unfolding asr_exec_def by (rule asr_inv_foldl [OF asr_inv_init])


text \<open>
  Claim C6. In every run of the client from its initial state, at most
  \<^verbatim>\<open>maxConcurrentRequests\<close> = 2 backend calls are in flight and the counter
  \<^verbatim>\<open>pendingRequests\<close> is their number. A call of \<^verbatim>\<open>transcribe\<close> that finds the
  counter at the cap returns \<^verbatim>\<open>null\<close> at once and leaves the service as it is: in a
  run with two calls in flight the frame is neither dispatched nor queued. The counter
  goes down by one when a call completes, whether the backend section returned or threw.
\<close>

theorem C6_concurrency_cap:
  "length (inflight (asr_exec (asr_init cfg) evs)) \<le> 2 \<and>
   pendingRequests (service (asr_exec (asr_init cfg) evs))
     = int (length (inflight (asr_exec (asr_init cfg) evs))) \<and>
   (pendingRequests s \<ge> maxConcurrentRequests s \<longrightarrow> transcribe_enter s = (False, s)) \<and>
   (length (inflight (asr_exec (asr_init cfg) evs)) = 2 \<longrightarrow>
      asr_step (asr_exec (asr_init cfg) evs) (Arrive k) =
        (asr_exec (asr_init cfg) evs)
          \<lparr>returned := returned (asr_exec (asr_init cfg) evs) @ [(k, None)]\<rparr>) \<and>
   transcribe_exit (Inr res) s = (res, s\<lparr>pendingRequests := pendingRequests s - 1\<rparr>) \<and>
   transcribe_exit (Inl e) s = (None, s\<lparr>pendingRequests := pendingRequests s - 1\<rparr>)"
proof -
  let ?r = "asr_exec (asr_init cfg) evs"
  have inv: "asr_inv ?r" by (rule asr_inv_exec)
  then have cap: "length (inflight ?r) \<le> 2"
    and cnt: "pendingRequests (service ?r) = int (length (inflight ?r))"
    by (simp_all add: asr_inv_def)
  have guard: "pendingRequests s \<ge> maxConcurrentRequests s \<longrightarrow> transcribe_enter s = (False, s)"
    by (simp add: transcribe_enter_def)
  have drop: "length (inflight ?r) = 2 \<longrightarrow>
      asr_step ?r (Arrive k) = ?r\<lparr>returned := returned ?r @ [(k, None)]\<rparr>"
    using inv by (simp add: asr_inv_def transcribe_enter_def)
  have fin: "transcribe_exit (Inr res) s = (res, s\<lparr>pendingRequests := pendingRequests s - 1\<rparr>)"
    "transcribe_exit (Inl e) s = (None, s\<lparr>pendingRequests := pendingRequests s - 1\<rparr>)"
    by (simp_all add: transcribe_exit_def)
  from cap cnt guard drop fin show ?thesis by blast
qed

text \<open>
  The theorem at a run of three frames: the first two are dispatched, the third arrives
  while both are in flight and is dropped.
\<close>

theorem C6_concurrency_cap_witness:
  "length (inflight (asr_exec (asr_init ASR_DEFAULT_CONFIG) [Arrive 0, Arrive 1])) = 2 \<and>
   pendingRequests (service (asr_exec (asr_init ASR_DEFAULT_CONFIG) [Arrive 0, Arrive 1]))
     \<ge> maxConcurrentRequests (service (asr_exec (asr_init ASR_DEFAULT_CONFIG) [Arrive 0, Arrive 1])) \<and>
   transcribe_enter (service (asr_exec (asr_init ASR_DEFAULT_CONFIG) [Arrive 0, Arrive 1]))
     = (False, service (asr_exec (asr_init ASR_DEFAULT_CONFIG) [Arrive 0, Arrive 1])) \<and>
   dispatched (asr_step (asr_exec (asr_init ASR_DEFAULT_CONFIG) [Arrive 0, Arrive 1]) (Arrive 2))
     = [0, 1] \<and>
   returned (asr_step (asr_exec (asr_init ASR_DEFAULT_CONFIG) [Arrive 0, Arrive 1]) (Arrive 2))
     = [(2, None)]"
proof -
  let ?r = "asr_exec (asr_init ASR_DEFAULT_CONFIG) [Arrive 0, Arrive 1]"
  have two: "length (inflight ?r) = 2"
    by (simp add: asr_exec_def asr_init_def new_ASRService_def transcribe_enter_def)
  have full: "pendingRequests (service ?r) \<ge> maxConcurrentRequests (service ?r)"
    by (simp add: asr_exec_def asr_init_def new_ASRService_def transcribe_enter_def)
  have d: "dispatched ?r = [0, 1]" and r: "returned ?r = []"
    by (simp_all add: asr_exec_def asr_init_def new_ASRService_def transcribe_enter_def)
  note inst = C6_concurrency_cap [of ASR_DEFAULT_CONFIG "[Arrive 0, Arrive 1]" "service ?r" 2]
  from inst full have enter: "transcribe_enter (service ?r) = (False, service ?r)"
    by blast
  from inst two have "asr_step ?r (Arrive 2) = ?r\<lparr>returned := returned ?r @ [(2, None)]\<rparr>"
    by blast
  with d r have "dispatched (asr_step ?r (Arrive 2)) = [0, 1]"
    and "returned (asr_step ?r (Arrive 2)) = [(2, None)]"
    by simp_all
  with two full enter show ?thesis by blast
qed

subsection \<open>The question detector\<close>

lemma detectQuestion_unfold:
  "detectQuestion tq now t s =
     (if t = lastProcessedText s then (None, s)
      else if \<not> isCompleteSentence (buffer_after t s)
      then (None, s\<lparr>lastProcessedText := t, transcriptionBuffer := buffer_after t s\<rparr>)
      else (case analyzeForQuestion tq (buffer_after t s) of
              None \<Rightarrow> (None, s\<lparr>lastProcessedText := t, transcriptionBuffer := buffer_after t s\<rparr>)
            | Some q \<Rightarrow>
                if now - lastQuestionTime s < minQuestionGapMs s
                then (None, s\<lparr>lastProcessedText := t, transcriptionBuffer := buffer_after t s\<rparr>)
                else (Some q, s\<lparr>lastQuestionTime := now,
                                detectedQuestions := detectedQuestions s @ [q],
                                transcriptionBuffer := [],
                                lastProcessedText := []\<rparr>)))"
  by (simp add: detectQuestion_def buffer_after_def Let_def split: option.splits)

text \<open>A pattern that matches scores between 0.4 and 0.9: the clamp never acts.\<close>

lemma calculateConfidence_range:
  "js_match pattern text \<noteq> None \<Longrightarrow>
     4 / 10 \<le> calculateConfidence text pattern \<and> calculateConfidence text pattern \<le> 9 / 10"
  by (simp add: calculateConfidence_def Let_def)

lemma analyze_pattern_inv:
  assumes "fst (snd st) = 0 \<or> 4 / 10 \<le> fst (snd st)"
  shows "fst (snd (analyze_pattern text ty st pattern)) = 0 \<or>
         4 / 10 \<le> fst (snd (analyze_pattern text ty st pattern))"
proof (cases "js_test pattern text \<and> calculateConfidence text pattern > fst (snd st)")
  case True
  then have "js_match pattern text \<noteq> None"
    by (simp add: js_test_def)
  then have "4 / 10 \<le> calculateConfidence text pattern"
    using calculateConfidence_range by blast
  with True show ?thesis
    by (cases st) (simp add: analyze_pattern_def Let_def)
next
  case False
  then have "analyze_pattern text ty st pattern = st"
    by (cases st) (auto simp: analyze_pattern_def Let_def)
  with assms show ?thesis by simp
qed

lemma analyze_inner_inv:
  "fst (snd st) = 0 \<or> 4 / 10 \<le> fst (snd st) \<Longrightarrow>
   fst (snd (foldl (analyze_pattern text ty) st patterns)) = 0 \<or>
   4 / 10 \<le> fst (snd (foldl (analyze_pattern text ty) st patterns))"
proof (induction patterns arbitrary: st)
  case Nil
  then show ?case by simp
next
  case (Cons pattern patterns)
  from Cons.prems have "fst (snd (analyze_pattern text ty st pattern)) = 0 \<or>
         4 / 10 \<le> fst (snd (analyze_pattern text ty st pattern))"
    by (rule analyze_pattern_inv)
  then show ?case
    using Cons.IH by simp
qed

lemma analyze_outer_inv:
  "fst (snd st) = 0 \<or> 4 / 10 \<le> fst (snd st) \<Longrightarrow>
   fst (snd (foldl (\<lambda>st (ty, patterns). foldl (analyze_pattern text ty) st patterns) st table)) = 0 \<or>
   4 / 10 \<le> fst (snd (foldl (\<lambda>st (ty, patterns). foldl (analyze_pattern text ty) st patterns) st table))"
proof (induction table arbitrary: st)
  case Nil
  then show ?case by simp
next
  case (Cons row table)
  obtain ty patterns where row: "row = (ty, patterns)" by (cases row)
  from Cons.prems have "fst (snd (foldl (analyze_pattern text ty) st patterns)) = 0 \<or>
         4 / 10 \<le> fst (snd (foldl (analyze_pattern text ty) st patterns))"
    by (rule analyze_inner_inv)
  then show ?case
    using Cons.IH row by simp
qed

lemma analyze_patterns_inv:
  "fst (snd (analyze_patterns text (general, 0, []))) = 0 \<or>
   4 / 10 \<le> fst (snd (analyze_patterns text (general, 0, [])))"
  unfolding analyze_patterns_def by (rule analyze_outer_inv) simp

text \<open>
  So the threshold 0.3 rejects nothing: the analysis returns a question exactly when
  the normalised text looks like a question, and the text of the question is the
  cleaned buffer.
\<close>

lemma analyzeForQuestion_None_iff:
  "analyzeForQuestion tq text = None \<longleftrightarrow> \<not> looksLikeQuestion (js_toLowerCase (js_trim text))"
proof -
  obtain ty c ks where r: "analyze_patterns (js_toLowerCase (js_trim text)) (general, 0, []) = (ty, c, ks)"
    by (cases "analyze_patterns (js_toLowerCase (js_trim text)) (general, 0, [])")
  with analyze_patterns_inv [of "js_toLowerCase (js_trim text)"] have "c = 0 \<or> 4 / 10 \<le> c"
    by simp
  with r show ?thesis
    by (auto simp: analyzeForQuestion_def Let_def)
qed

lemma analyzeForQuestion_text:
  "analyzeForQuestion tq text = Some q \<Longrightarrow> q_text q = cleanQuestionText text"
  by (auto simp: analyzeForQuestion_def Let_def split: if_splits prod.splits)

lemma analyzeForQuestion_Some:
  "looksLikeQuestion (js_toLowerCase (js_trim text)) \<Longrightarrow>
     \<exists>q. analyzeForQuestion tq text = Some q \<and> q_text q = cleanQuestionText text"
  using analyzeForQuestion_None_iff [of tq "text"] analyzeForQuestion_text [of tq "text"]
  by (cases "analyzeForQuestion tq text") auto

text \<open>Two sample fragments, each a complete question, and how the detector treats them.\<close>

lemma sample_A_facts:
  "js_trim ('' '' @ ''What is the difference between TCP and UDP?'')
     = ''What is the difference between TCP and UDP?''"
  "isCompleteSentence ''What is the difference between TCP and UDP?''"
  "looksLikeQuestion (js_toLowerCase (js_trim ''What is the difference between TCP and UDP?''))"
  "cleanQuestionText ''What is the difference between TCP and UDP?''
     = ''What is the difference between TCP and UDP?''"
  by code_simp+

lemma sample_B_facts:
  "js_trim ('' '' @ ''How would you design a rate limiter?'')
     = ''How would you design a rate limiter?''"
  "isCompleteSentence ''How would you design a rate limiter?''"
  "looksLikeQuestion (js_toLowerCase (js_trim ''How would you design a rate limiter?''))"
  "cleanQuestionText ''How would you design a rate limiter?''
     = ''How would you design a rate limiter?''"
  by code_simp+

lemma buffer_after_A:
  "transcriptionBuffer s = [] \<Longrightarrow>
     buffer_after ''What is the difference between TCP and UDP?'' s
       = ''What is the difference between TCP and UDP?''"
  using sample_A_facts(1) by (simp add: buffer_after_def)

lemma buffer_after_B:
  "transcriptionBuffer s = [] \<Longrightarrow>
     buffer_after ''How would you design a rate limiter?'' s
       = ''How would you design a rate limiter?''"
  using sample_B_facts(1) by (simp add: buffer_after_def)

lemma buffer_after_empty_fragment:
  "transcriptionBuffer s = ''How would you design a rate limiter?'' \<Longrightarrow>
     buffer_after [] s = ''How would you design a rate limiter?''"
proof -
  have "js_includes ''How would you design a rate limiter?'' []" by simp
  moreover have "js_trim ''How would you design a rate limiter?''
      = ''How would you design a rate limiter?''" by code_simp
  ultimately show "transcriptionBuffer s = ''How would you design a rate limiter?'' \<Longrightarrow>
     buffer_after [] s = ''How would you design a rate limiter?''"
    by (simp add: buffer_after_def)
qed

text \<open>A question is emitted when the gap since the last one is at least the minimum.\<close>

lemma detect_A_emits:
  assumes "transcriptionBuffer s = []" and "lastProcessedText s = []"
    and "\<not> now - lastQuestionTime s < minQuestionGapMs s"
  shows "\<exists>q. q_text q = ''What is the difference between TCP and UDP?'' \<and>
           detectQuestion tq now ''What is the difference between TCP and UDP?'' s =
             (Some q, s\<lparr>lastQuestionTime := now,
                        detectedQuestions := detectedQuestions s @ [q],
                        transcriptionBuffer := [],
                        lastProcessedText := []\<rparr>)"
proof -
  let ?t = "''What is the difference between TCP and UDP?''"
  obtain q where q: "analyzeForQuestion tq ?t = Some q" "q_text q = ?t"
    using analyzeForQuestion_Some [OF sample_A_facts(3), of tq] sample_A_facts(4) by auto
  have b: "buffer_after ?t s = ?t" using assms(1) by (rule buffer_after_A)
  have "detectQuestion tq now ?t s =
             (Some q, s\<lparr>lastQuestionTime := now,
                        detectedQuestions := detectedQuestions s @ [q],
                        transcriptionBuffer := [],
                        lastProcessedText := []\<rparr>)"
    using assms(2,3) q(1) sample_A_facts(2) by (simp add: detectQuestion_unfold b)
  with q(2) show ?thesis by blast
qed

lemma detect_B_emits:
  assumes "transcriptionBuffer s = []" and "lastProcessedText s = []"
    and "\<not> now - lastQuestionTime s < minQuestionGapMs s"
  shows "\<exists>q. q_text q = ''How would you design a rate limiter?'' \<and>
           detectQuestion tq now ''How would you design a rate limiter?'' s =
             (Some q, s\<lparr>lastQuestionTime := now,
                        detectedQuestions := detectedQuestions s @ [q],
                        transcriptionBuffer := [],
                        lastProcessedText := []\<rparr>)"
proof -
  let ?t = "''How would you design a rate limiter?''"
  obtain q where q: "analyzeForQuestion tq ?t = Some q" "q_text q = ?t"
    using analyzeForQuestion_Some [OF sample_B_facts(3), of tq] sample_B_facts(4) by auto
  have b: "buffer_after ?t s = ?t" using assms(1) by (rule buffer_after_B)
  have "detectQuestion tq now ?t s =
             (Some q, s\<lparr>lastQuestionTime := now,
                        detectedQuestions := detectedQuestions s @ [q],
                        transcriptionBuffer := [],
                        lastProcessedText := []\<rparr>)"
    using assms(2,3) q(1) sample_B_facts(2) by (simp add: detectQuestion_unfold b)
  with q(2) show ?thesis by blast
qed

text \<open>Inside the gap the second question is held back and stays in the buffer.\<close>

lemma detect_B_suppressed:
  assumes "transcriptionBuffer s = []" and "lastProcessedText s = []"
    and "now - lastQuestionTime s < minQuestionGapMs s"
  shows "detectQuestion tq now ''How would you design a rate limiter?'' s =
           (None, s\<lparr>lastProcessedText := ''How would you design a rate limiter?'',
                     transcriptionBuffer := ''How would you design a rate limiter?''\<rparr>)"
proof -
  let ?t = "''How would you design a rate limiter?''"
  obtain q where q: "analyzeForQuestion tq ?t = Some q"
    using analyzeForQuestion_Some [OF sample_B_facts(3), of tq] by auto
  have b: "buffer_after ?t s = ?t" using assms(1) by (rule buffer_after_B)
  show ?thesis
    using assms(2,3) q sample_B_facts(2) by (simp add: detectQuestion_unfold b)
qed



text \<open>
  Claim C9, as the claim states it, fails when the first of the two calls emits a
  question: the emission empties the buffer and resets \<^verbatim>\<open>lastProcessedText\<close>, so the
  second, identical fragment is not recognised as a repetition and enters the buffer.
  On a new detector the question is emitted at 10000; fed once, the buffer is empty
  afterwards; fed again at 10500, the buffer holds the fragment.
\<close>

theorem C9_twice_differs_counterexample:
  "transcriptionBuffer
     (snd (detectQuestion 10000 10000 ''What is the difference between TCP and UDP?''
             new_QuestionDetectorService)) = [] \<and>
   transcriptionBuffer
     (snd (detectQuestion 10500 10500 ''What is the difference between TCP and UDP?''
        (snd (detectQuestion 10000 10000 ''What is the difference between TCP and UDP?''
                new_QuestionDetectorService))))
     = ''What is the difference between TCP and UDP?''"
proof -
  let ?A = "''What is the difference between TCP and UDP?''"
  let ?s0 = "new_QuestionDetectorService"
  let ?s1 = "snd (detectQuestion 10000 10000 ?A ?s0)"
  obtain q1 where first:
    "detectQuestion 10000 10000 ?A ?s0 =
       (Some q1, ?s0\<lparr>lastQuestionTime := 10000,
                      detectedQuestions := detectedQuestions ?s0 @ [q1],
                      transcriptionBuffer := [],
                      lastProcessedText := []\<rparr>)"
    using detect_A_emits [of ?s0 10000 10000]
    by (auto simp: new_QuestionDetectorService_def)
  then have s1: "transcriptionBuffer ?s1 = []" "lastProcessedText ?s1 = []"
    "lastQuestionTime ?s1 = 10000" "minQuestionGapMs ?s1 = 2000"
    by (simp_all add: new_QuestionDetectorService_def)
  from s1(1) have b: "buffer_after ?A ?s1 = ?A"
    by (rule buffer_after_A)
  obtain q2 where q2: "analyzeForQuestion 10500 ?A = Some q2"
    using analyzeForQuestion_Some [OF sample_A_facts(3), of 10500] by auto
  have "detectQuestion 10500 10500 ?A ?s1 =
          (None, ?s1\<lparr>lastProcessedText := ?A, transcriptionBuffer := ?A\<rparr>)"
    using s1 q2 sample_A_facts(2) by (simp add: detectQuestion_unfold [of _ _ _ ?s1] b)
  with s1(1) show ?thesis by simp
qed

text \<open>
  Claim C9, amended. When the first call with fragment \<open>t\<close> emits no question, a
  second call with the same fragment, at any time, returns \<^verbatim>\<open>null\<close> and leaves the
  whole detector, the buffer included, as the first call left it.
\<close>

theorem C9_repeated_fragment_ignored:
  "fst (detectQuestion tq now t s) = None \<Longrightarrow>
     detectQuestion tq' now' t (snd (detectQuestion tq now t s))
       = (None, snd (detectQuestion tq now t s))"
proof (cases "t = lastProcessedText s")
  case True
  then show ?thesis by (simp add: detectQuestion_unfold)
next
  case False
  assume "fst (detectQuestion tq now t s) = None"
  with False have "lastProcessedText (snd (detectQuestion tq now t s)) = t"
    by (auto simp: detectQuestion_unfold split: if_splits option.splits)
  then show ?thesis
    by (simp add: detectQuestion_unfold [of tq' now' t])
qed

text \<open>
  The theorem on a new detector and a fragment that completes no sentence: the second
  call changes nothing, and the buffer holds the fragment once.
\<close>

theorem C9_repeated_fragment_ignored_witness:
  "fst (detectQuestion 10000 10000 ''um yeah so'' new_QuestionDetectorService) = None \<and>
   detectQuestion 10500 10500 ''um yeah so''
       (snd (detectQuestion 10000 10000 ''um yeah so'' new_QuestionDetectorService))
     = (None, snd (detectQuestion 10000 10000 ''um yeah so'' new_QuestionDetectorService)) \<and>
   transcriptionBuffer
     (snd (detectQuestion 10500 10500 ''um yeah so''
        (snd (detectQuestion 10000 10000 ''um yeah so'' new_QuestionDetectorService))))
     = ''um yeah so''"
proof -
  let ?s0 = "new_QuestionDetectorService"
  have b: "buffer_after ''um yeah so'' ?s0 = ''um yeah so''"
    by code_simp
  have nc: "\<not> isCompleteSentence ''um yeah so''"
    by code_simp
  have first: "detectQuestion 10000 10000 ''um yeah so'' ?s0 =
      (None, ?s0\<lparr>lastProcessedText := ''um yeah so'', transcriptionBuffer := ''um yeah so''\<rparr>)"
    using nc by (simp add: detectQuestion_unfold b) (simp add: new_QuestionDetectorService_def)
  then have none: "fst (detectQuestion 10000 10000 ''um yeah so'' ?s0) = None"
    by simp
  from C9_repeated_fragment_ignored [OF none, of 10500 10500]
  have second: "detectQuestion 10500 10500 ''um yeah so''
       (snd (detectQuestion 10000 10000 ''um yeah so'' ?s0))
     = (None, snd (detectQuestion 10000 10000 ''um yeah so'' ?s0))" .
  from second first have "transcriptionBuffer
     (snd (detectQuestion 10500 10500 ''um yeah so''
        (snd (detectQuestion 10000 10000 ''um yeah so'' ?s0)))) = ''um yeah so''"
    by simp
  with none second show ?thesis by blast
qed

text \<open>
  Claim C5, as the claim states it, fails in a state the detector reaches: one question
  emitted at 10000, a second one held back at 11000 and kept in the buffer. The empty
  fragment at 13000 is not equal to the last processed text, so it is processed: the
  buffer is examined again and the second question is emitted.
\<close>

theorem C5_empty_fragment_emits_counterexample:
  "fst (detectQuestion 13000 13000 []
     (snd (detectQuestion 11000 11000 ''How would you design a rate limiter?''
        (snd (detectQuestion 10000 10000 ''What is the difference between TCP and UDP?''
                new_QuestionDetectorService))))) \<noteq> None \<and>
   snd (detectQuestion 13000 13000 []
     (snd (detectQuestion 11000 11000 ''How would you design a rate limiter?''
        (snd (detectQuestion 10000 10000 ''What is the difference between TCP and UDP?''
                new_QuestionDetectorService)))))
   \<noteq> snd (detectQuestion 11000 11000 ''How would you design a rate limiter?''
        (snd (detectQuestion 10000 10000 ''What is the difference between TCP and UDP?''
                new_QuestionDetectorService)))"
proof -
  let ?A = "''What is the difference between TCP and UDP?''"
  let ?B = "''How would you design a rate limiter?''"
  let ?s0 = "new_QuestionDetectorService"
  let ?s1 = "snd (detectQuestion 10000 10000 ?A ?s0)"
  let ?s2 = "snd (detectQuestion 11000 11000 ?B ?s1)"
  obtain q1 where first:
    "detectQuestion 10000 10000 ?A ?s0 =
       (Some q1, ?s0\<lparr>lastQuestionTime := 10000,
                      detectedQuestions := detectedQuestions ?s0 @ [q1],
                      transcriptionBuffer := [],
                      lastProcessedText := []\<rparr>)"
    using detect_A_emits [of ?s0 10000 10000]
    by (auto simp: new_QuestionDetectorService_def)
  then have s1: "transcriptionBuffer ?s1 = []" "lastProcessedText ?s1 = []"
    "lastQuestionTime ?s1 = 10000" "minQuestionGapMs ?s1 = 2000"
    by (simp_all add: new_QuestionDetectorService_def)
  have second: "detectQuestion 11000 11000 ?B ?s1 =
      (None, ?s1\<lparr>lastProcessedText := ?B, transcriptionBuffer := ?B\<rparr>)"
    using s1 by (intro detect_B_suppressed) simp_all
  then have s2: "transcriptionBuffer ?s2 = ?B" "lastProcessedText ?s2 = ?B"
    "lastQuestionTime ?s2 = 10000" "minQuestionGapMs ?s2 = 2000"
    using s1 by simp_all
  from s2(1) have b: "buffer_after [] ?s2 = ?B"
    by (rule buffer_after_empty_fragment)
  obtain q2 where q2: "analyzeForQuestion 13000 ?B = Some q2"
    using analyzeForQuestion_Some [OF sample_B_facts(3), of 13000] by auto
  have third: "detectQuestion 13000 13000 [] ?s2 =
      (Some q2, ?s2\<lparr>lastQuestionTime := 13000,
                     detectedQuestions := detectedQuestions ?s2 @ [q2],
                     transcriptionBuffer := [],
                     lastProcessedText := []\<rparr>)"
    using s2 q2 sample_B_facts(2) by (simp add: detectQuestion_unfold [of _ _ _ ?s2] b)
  then have "fst (detectQuestion 13000 13000 [] ?s2) \<noteq> None"
    by simp
  moreover have "snd (detectQuestion 13000 13000 [] ?s2) \<noteq> ?s2"
  proof
    assume "snd (detectQuestion 13000 13000 [] ?s2) = ?s2"
    then have "lastQuestionTime (snd (detectQuestion 13000 13000 [] ?s2)) = lastQuestionTime ?s2"
      by simp
    with third s2(3) show False by simp
  qed
  ultimately show ?thesis by blast
qed

text \<open>
  Claim C5, amended. \<^verbatim>\<open>detectQuestion\<close> is a total function: it throws for no
  fragment. The empty fragment is a no-op (\<^verbatim>\<open>null\<close> returned, detector unchanged)
  exactly in the states whose last processed text is empty as well: a new detector,
  and the detector after an emission or after \<^verbatim>\<open>clearBuffer\<close>. The pipeline hands
  no empty text to the detector: a transcription that is \<^verbatim>\<open>null\<close> or has an empty
  text leaves the detector as it is.
\<close>

theorem C5_empty_fragment_noop:
  "(detectQuestion tq now [] s = (None, s)) = (lastProcessedText s = []) \<and>
   detectQuestion tq now [] new_QuestionDetectorService = (None, new_QuestionDetectorService) \<and>
   detectQuestion tq now [] (clearBuffer s) = (None, clearBuffer s) \<and>
   (fst (detectQuestion tq' now' t s) \<noteq> None \<longrightarrow>
      detectQuestion tq now [] (snd (detectQuestion tq' now' t s))
        = (None, snd (detectQuestion tq' now' t s))) \<and>
   (r = None \<or> (\<exists>x. r = Some x \<and> tr_text x = []) \<longrightarrow>
      questionDetector (handleAudioChunk_transcribed k (Inr r) tq now p) = questionDetector p)"
proof (intro conjI impI)
  show "(detectQuestion tq now [] s = (None, s)) = (lastProcessedText s = [])"
  proof
    assume same: "detectQuestion tq now [] s = (None, s)"
    show "lastProcessedText s = []"
    proof (rule ccontr)
      assume ne: "lastProcessedText s \<noteq> []"
      then have "lastProcessedText (snd (detectQuestion tq now [] s)) = []"
        by (auto simp: detectQuestion_unfold split: option.splits)
      with same ne show False by simp
    qed
  next
    assume "lastProcessedText s = []"
    then show "detectQuestion tq now [] s = (None, s)"
      by (simp add: detectQuestion_unfold)
  qed
  show "detectQuestion tq now [] new_QuestionDetectorService = (None, new_QuestionDetectorService)"
    by (simp add: detectQuestion_unfold new_QuestionDetectorService_def)
  show "detectQuestion tq now [] (clearBuffer s) = (None, clearBuffer s)"
    by (simp add: detectQuestion_unfold clearBuffer_def)
next
  assume "fst (detectQuestion tq' now' t s) \<noteq> None"
  then have "lastProcessedText (snd (detectQuestion tq' now' t s)) = []"
    by (auto simp: detectQuestion_unfold split: if_splits option.splits)
  then show "detectQuestion tq now [] (snd (detectQuestion tq' now' t s))
        = (None, snd (detectQuestion tq' now' t s))"
    by (simp add: detectQuestion_unfold [of tq now "[]"])
next
  assume "r = None \<or> (\<exists>x. r = Some x \<and> tr_text x = [])"
  then show "questionDetector (handleAudioChunk_transcribed k (Inr r) tq now p) = questionDetector p"
    by (auto simp: handleAudioChunk_transcribed_def transcribe_exit_def setStatus_def Let_def)
qed

text \<open>
  The theorem on the detector after the emission of a question, and on a running
  pipeline whose transcription comes back with an empty text.
\<close>

theorem C5_empty_fragment_noop_witness:
  "fst (detectQuestion 10000 10000 ''What is the difference between TCP and UDP?''
          new_QuestionDetectorService) \<noteq> None \<and>
   detectQuestion 10500 10500 []
       (snd (detectQuestion 10000 10000 ''What is the difference between TCP and UDP?''
               new_QuestionDetectorService))
     = (None, snd (detectQuestion 10000 10000 ''What is the difference between TCP and UDP?''
               new_QuestionDetectorService)) \<and>
   questionDetector
     (handleAudioChunk_transcribed 1
        (Inr (Some \<lparr>tr_text = [], tr_language = ''en'', tr_confidence = 1, tr_duration = 3000,
                    tr_timestamp = 10000\<rparr>)) 10000 10000
        (handleAudioChunk_enter 1
           ((new_InterviewPipeline
              \<lparr>pc_groqApiKey = ''key'', pc_aiProvider = AI_groq, pc_asrProvider = ASR_groq,
               pc_language = ''auto'', pc_defaultAnswerLength = medium,
               pc_audioSource = microphone\<rparr> True)\<lparr>isRunning := True\<rparr>)))
     = new_QuestionDetectorService"
proof -
  let ?A = "''What is the difference between TCP and UDP?''"
  let ?s0 = "new_QuestionDetectorService"
  let ?tr = "\<lparr>tr_text = [], tr_language = ''en'', tr_confidence = 1, tr_duration = 3000,
                    tr_timestamp = 10000\<rparr>"
  let ?p = "handleAudioChunk_enter 1
           ((new_InterviewPipeline
              \<lparr>pc_groqApiKey = ''key'', pc_aiProvider = AI_groq, pc_asrProvider = ASR_groq,
               pc_language = ''auto'', pc_defaultAnswerLength = medium,
               pc_audioSource = microphone\<rparr> True)\<lparr>isRunning := True\<rparr>)"
  have emits: "fst (detectQuestion 10000 10000 ?A ?s0) \<noteq> None"
    using detect_A_emits [of ?s0 10000 10000]
    by (auto simp: new_QuestionDetectorService_def)
  note inst = C5_empty_fragment_noop [where tq = 10500 and now = 10500 and tq' = 10000
      and now' = 10000 and t = ?A and s = ?s0]
  from inst emits have noop: "detectQuestion 10500 10500 [] (snd (detectQuestion 10000 10000 ?A ?s0))
        = (None, snd (detectQuestion 10000 10000 ?A ?s0))"
    by blast
  have "Some ?tr = None \<or> (\<exists>x. Some ?tr = Some x \<and> tr_text x = [])"
    by simp
  with C5_empty_fragment_noop [where r = "Some ?tr" and k = 1 and tq = 10000 and now = 10000
      and p = ?p]
  have "questionDetector (handleAudioChunk_transcribed 1 (Inr (Some ?tr)) 10000 10000 ?p)
      = questionDetector ?p"
    by blast
  moreover have "questionDetector ?p = ?s0"
    by (simp add: handleAudioChunk_enter_def new_InterviewPipeline_def setStatus_def
        transcribe_enter_def new_ASRService_def Let_def)
  ultimately show ?thesis using emits noop by simp
qed

subsection \<open>The confidence of a pattern match\<close>




subsection \<open>Silence suppression in the chunk timer\<close>







subsection \<open>Starting the pipeline\<close>

text \<open>
  Claim C4, as the claim states it, fails in its last part: a failed \<^verbatim>\<open>start\<close> does
  return \<^verbatim>\<open>false\<close>, but its \<^verbatim>\<open>catch\<close> block sets the status \<^verbatim>\<open>error\<close>. Below, a new
  pipeline with the provider groq and no API key, and a new pipeline with a key whose
  microphone capture is refused.
\<close>

theorem C4_status_error_counterexample:
  "start \<lparr>mic_ok = True, audio_sources = Inr [], system_ok = False, combined_ok = False\<rparr>
     (new_InterviewPipeline
        \<lparr>pc_groqApiKey = [], pc_aiProvider = AI_groq, pc_asrProvider = ASR_groq,
         pc_language = ''auto'', pc_defaultAnswerLength = medium,
         pc_audioSource = microphone\<rparr> True)
   = (False,
      (new_InterviewPipeline
        \<lparr>pc_groqApiKey = [], pc_aiProvider = AI_groq, pc_asrProvider = ASR_groq,
         pc_language = ''auto'', pc_defaultAnswerLength = medium,
         pc_audioSource = microphone\<rparr> True)
      \<lparr>status := error,
        observed := [OnStatusChange initializing, OnStatusChange error,
                     OnError ''Failed to initialize ASR service'']\<rparr>) \<and>
   status (snd (start \<lparr>mic_ok = False, audio_sources = Inr [], system_ok = False, combined_ok = False\<rparr>
     (new_InterviewPipeline
        \<lparr>pc_groqApiKey = ''key'', pc_aiProvider = AI_groq, pc_asrProvider = ASR_groq,
         pc_language = ''auto'', pc_defaultAnswerLength = medium,
         pc_audioSource = microphone\<rparr> True))) = error \<and>
   error \<noteq> idle"
  by (simp add: start_def start_failed_def setStatus_def notify_def initialize_def
      captureStarted_def new_InterviewPipeline_def new_ASRService_def ASR_DEFAULT_CONFIG_def
      Let_def)

text \<open>
  Claim C4, amended. On a pipeline that is not running, if the transcription service
  rejects its configuration (provider groq without an API key) or the audio capture of
  the configured source does not start (the capture method returns \<^verbatim>\<open>false\<close>, no audio
  source is listed, or listing them fails), then \<^verbatim>\<open>start\<close> returns \<^verbatim>\<open>false\<close>, the pipeline
  stays not running, and the status, after \<^verbatim>\<open>initializing\<close>, ends as \<^verbatim>\<open>error\<close>; the
  error is reported to \<^verbatim>\<open>onError\<close>. Nothing else changes.
\<close>

theorem C4_start_failure:
  "\<not> isRunning p \<Longrightarrow>
   \<not> initialize (asrService p) \<or>
   captureStarted env (hasElectronAPI p) (pc_audioSource (pconfig p)) \<noteq> Inr True \<Longrightarrow>
     start env p =
       (False,
        p\<lparr>status := error,
          observed := observed p @
            [OnStatusChange initializing, OnStatusChange error,
             OnError (if \<not> initialize (asrService p)
                      then ''Failed to initialize ASR service''
                      else case captureStarted env (hasElectronAPI p)
                                  (pc_audioSource (pconfig p)) of
                             Inl e \<Rightarrow> e
                           | Inr started \<Rightarrow> ''Failed to start audio capture'')]\<rparr>) \<and>
     \<not> isRunning (snd (start env p)) \<and>
     status (snd (start env p)) = error"
  by (auto simp: start_def start_failed_def setStatus_def notify_def Let_def
      split: sum.splits bool.splits)

text \<open>
  The theorem at a pipeline with an API key whose source is the system audio while the
  list of audio sources is empty, so that the capture does not start.
\<close>

theorem C4_start_failure_witness:
  "\<not> isRunning (new_InterviewPipeline
        \<lparr>pc_groqApiKey = ''key'', pc_aiProvider = AI_groq, pc_asrProvider = ASR_groq,
         pc_language = ''auto'', pc_defaultAnswerLength = medium,
         pc_audioSource = system\<rparr> True) \<and>
   captureStarted
        \<lparr>mic_ok = True, audio_sources = Inr [], system_ok = True, combined_ok = True\<rparr>
        True system = Inr False \<and>
   fst (start \<lparr>mic_ok = True, audio_sources = Inr [], system_ok = True, combined_ok = True\<rparr>
     (new_InterviewPipeline
        \<lparr>pc_groqApiKey = ''key'', pc_aiProvider = AI_groq, pc_asrProvider = ASR_groq,
         pc_language = ''auto'', pc_defaultAnswerLength = medium,
         pc_audioSource = system\<rparr> True)) = False \<and>
   status (snd (start \<lparr>mic_ok = True, audio_sources = Inr [], system_ok = True, combined_ok = True\<rparr>
     (new_InterviewPipeline
        \<lparr>pc_groqApiKey = ''key'', pc_aiProvider = AI_groq, pc_asrProvider = ASR_groq,
         pc_language = ''auto'', pc_defaultAnswerLength = medium,
         pc_audioSource = system\<rparr> True))) = error"
proof -
  let ?env = "\<lparr>mic_ok = True, audio_sources = Inr [], system_ok = True, combined_ok = True\<rparr>"
  let ?p = "new_InterviewPipeline
        \<lparr>pc_groqApiKey = ''key'', pc_aiProvider = AI_groq, pc_asrProvider = ASR_groq,
         pc_language = ''auto'', pc_defaultAnswerLength = medium,
         pc_audioSource = system\<rparr> True"
  have nr: "\<not> isRunning ?p"
    by (simp add: new_InterviewPipeline_def)
  have nc: "captureStarted ?env True system = Inr False"
    by (simp add: captureStarted_def)
  have src: "pc_audioSource (pconfig ?p) = system" "hasElectronAPI ?p"
    by (simp_all add: new_InterviewPipeline_def)
  from nc src have h: "\<not> initialize (asrService ?p) \<or>
      captureStarted ?env (hasElectronAPI ?p) (pc_audioSource (pconfig ?p)) \<noteq> Inr True"
    by simp
  from C4_start_failure [OF nr h]
  have "fst (start ?env ?p) = False" and "status (snd (start ?env ?p)) = error"
    by simp_all
  with nr nc show ?thesis by blast
qed

subsection \<open>Answer generation with a failing backend call\<close>

lemma first_rejected_only:
  "f bad = Inl e \<Longrightarrow> \<forall>len. len \<noteq> bad \<longrightarrow> (\<exists>a. f len = Inr a) \<Longrightarrow> bad \<in> set order \<Longrightarrow>
     first_rejected order f = Some e"
proof (induction order)
  case Nil
  then show ?case by simp
next
  case (Cons len order)
  show ?case
  proof (cases "len = bad")
    case True
    with Cons.prems(1) show ?thesis by simp
  next
    case False
    with Cons.prems(2) obtain a where "f len = Inr a" by blast
    moreover from False Cons.prems(3) have "bad \<in> set order" by auto
    ultimately show ?thesis using Cons.IH Cons.prems(1,2) by simp
  qed
qed

text \<open>
  Claim C2, as the claim states it, fails: the three calls are joined by
  \<^verbatim>\<open>Promise.all\<close>, which rejects as soon as one of them rejects. With the backend
  refusing the long answer only, \<^verbatim>\<open>generateAllLengths\<close> rejects with that error, so the
  exception reaches the caller and no variant does; in the pipeline the current answers
  stay empty.
\<close>

theorem C2_partial_failure_counterexample:
  "generateAnswer \<lparr>ai_provider = AI_groq, ai_groqApiKey = ''key''\<rparr> sample_question short
     (replies_long_fails short) \<noteq> Inl ''Groq API error: 500 - '' \<and>
   generateAnswer \<lparr>ai_provider = AI_groq, ai_groqApiKey = ''key''\<rparr> sample_question medium
     (replies_long_fails medium) \<noteq> Inl ''Groq API error: 500 - '' \<and>
   generateAllLengths \<lparr>ai_provider = AI_groq, ai_groqApiKey = ''key''\<rparr> sample_question
     [short, medium, long] replies_long_fails = Some (Inl ''Groq API error: 500 - '') \<and>
   currentAnswers (store
     (generateAnswers_settled 1 [short, medium, long] replies_long_fails
        ((new_InterviewPipeline sample_config True)
           \<lparr>isRunning := True, awaiting_generation := [(1, sample_question)]\<rparr>))) = no_answers"
  by (simp add: generateAllLengths_def promise_all3_def generateAnswer_def generateWithGroq_def
      generateAnswers_settled_def new_InterviewPipeline_def sample_config_def notify_def
      setStatus_def setGenerating_def INITIAL_STATE_def Let_def)

text \<open>
  Claim C2, amended. When the call for exactly one length fails with error \<open>e\<close> and
  the other two succeed, \<^verbatim>\<open>generateAllLengths\<close> rejects with \<open>e\<close>: the caller receives
  the exception and none of the variants. In the pipeline \<^verbatim>\<open>generateAnswers\<close> catches
  it: the error goes to \<^verbatim>\<open>onError\<close>, the generating flag is reset and the status
  returns to \<^verbatim>\<open>listening\<close>; the current answers are not written and neither
  \<^verbatim>\<open>onAnswerGenerated\<close> nor \<^verbatim>\<open>displayAnswer\<close> is called. No exception leaves the
  pipeline.
\<close>

theorem C2_one_length_fails:
  "generateAnswer cfg q bad (replies bad) = Inl e \<Longrightarrow>
   \<forall>len. len \<noteq> bad \<longrightarrow> (\<exists>a. generateAnswer cfg q len (replies len) = Inr a) \<Longrightarrow>
   bad \<in> set order \<Longrightarrow>
     generateAllLengths cfg q order replies = Some (Inl e) \<and>
     (map_of (awaiting_generation p) k = Some q \<and> aiService p = cfg \<longrightarrow>
        generateAnswers_settled k order replies p =
          p\<lparr>awaiting_generation := remove1 (k, q) (awaiting_generation p),
            store := (store p)\<lparr>store_isGenerating := False\<rparr>,
            status := listening,
            observed := observed p @ [OnError e, OnStatusChange listening]\<rparr>)"
proof -
  assume bad: "generateAnswer cfg q bad (replies bad) = Inl e"
    and ok: "\<forall>len. len \<noteq> bad \<longrightarrow> (\<exists>a. generateAnswer cfg q len (replies len) = Inr a)"
    and mem: "bad \<in> set order"
  have fr: "first_rejected order (\<lambda>len. generateAnswer cfg q len (replies len)) = Some e"
    using bad ok mem by (rule first_rejected_only)
  then have all: "promise_all3 order (\<lambda>len. generateAnswer cfg q len (replies len)) = Some (Inl e)"
    by (simp add: promise_all3_def)
  then have "generateAllLengths cfg q order replies = Some (Inl e)"
    by (simp add: generateAllLengths_def)
  moreover have "map_of (awaiting_generation p) k = Some q \<and> aiService p = cfg \<longrightarrow>
        generateAnswers_settled k order replies p =
          p\<lparr>awaiting_generation := remove1 (k, q) (awaiting_generation p),
            store := (store p)\<lparr>store_isGenerating := False\<rparr>,
            status := listening,
            observed := observed p @ [OnError e, OnStatusChange listening]\<rparr>"
    using all
    by (auto simp: generateAnswers_settled_def notify_def setStatus_def setGenerating_def Let_def)
  ultimately show ?thesis by blast
qed

text \<open>
  The theorem at the run in which the backend refuses the long answer, in the three
  orders in which that request can settle.
\<close>

theorem C2_one_length_fails_witness:
  "generateAnswer \<lparr>ai_provider = AI_groq, ai_groqApiKey = ''key''\<rparr> sample_question long
     (replies_long_fails long) = Inl ''Groq API error: 500 - '' \<and>
   generateAllLengths \<lparr>ai_provider = AI_groq, ai_groqApiKey = ''key''\<rparr> sample_question
     [long, short, medium] replies_long_fails = Some (Inl ''Groq API error: 500 - '') \<and>
   generateAllLengths \<lparr>ai_provider = AI_groq, ai_groqApiKey = ''key''\<rparr> sample_question
     [short, long, medium] replies_long_fails = Some (Inl ''Groq API error: 500 - '') \<and>
   observed
     (generateAnswers_settled 1 [short, medium, long] replies_long_fails
        ((new_InterviewPipeline sample_config True)
           \<lparr>isRunning := True, awaiting_generation := [(1, sample_question)]\<rparr>))
     = [OnError ''Groq API error: 500 - '', OnStatusChange listening]"
proof -
  let ?cfg = "\<lparr>ai_provider = AI_groq, ai_groqApiKey = ''key''\<rparr>"
  let ?e = "''Groq API error: 500 - ''"
  let ?p = "(new_InterviewPipeline sample_config True)
           \<lparr>isRunning := True, awaiting_generation := [(1, sample_question)]\<rparr>"
  have bad: "generateAnswer ?cfg sample_question long (replies_long_fails long) = Inl ?e"
    by (simp add: generateAnswer_def generateWithGroq_def)
  have ok: "\<forall>len. len \<noteq> long \<longrightarrow>
      (\<exists>a. generateAnswer ?cfg sample_question len (replies_long_fails len) = Inr a)"
  proof (intro allI impI)
    fix len :: AnswerLength
    assume "len \<noteq> long"
    then show "\<exists>a. generateAnswer ?cfg sample_question len (replies_long_fails len) = Inr a"
      by (cases len) (simp_all add: generateAnswer_def generateWithGroq_def)
  qed
  have m1: "long \<in> set [long, short, medium]" and m2: "long \<in> set [short, long, medium]"
    and m3: "long \<in> set [short, medium, long]"
    by simp_all
  have pre: "map_of (awaiting_generation ?p) 1 = Some sample_question \<and> aiService ?p = ?cfg"
    by (simp add: new_InterviewPipeline_def sample_config_def)
  from C2_one_length_fails [OF bad ok m1]
  have r1: "generateAllLengths ?cfg sample_question [long, short, medium] replies_long_fails
      = Some (Inl ?e)"
    by blast
  from C2_one_length_fails [OF bad ok m2]
  have r2: "generateAllLengths ?cfg sample_question [short, long, medium] replies_long_fails
      = Some (Inl ?e)"
    by blast
  from C2_one_length_fails [OF bad ok m3, of ?p 1] pre
  have "generateAnswers_settled 1 [short, medium, long] replies_long_fails ?p =
          ?p\<lparr>awaiting_generation := remove1 (1, sample_question) (awaiting_generation ?p),
            store := (store ?p)\<lparr>store_isGenerating := False\<rparr>,
            status := listening,
            observed := observed ?p @ [OnError ?e, OnStatusChange listening]\<rparr>"
    by blast
  then have r3: "observed (generateAnswers_settled 1 [short, medium, long] replies_long_fails ?p)
      = [OnError ?e, OnStatusChange listening]"
    by (simp add: new_InterviewPipeline_def)
  from bad r1 r2 r3 show ?thesis by blast
qed

subsection \<open>Runs of the pipeline\<close>

lemma formatAnswer_samples:
  "formatAnswer ''TCP is reliable, UDP is not.'' = ''TCP is reliable, UDP is not.''"
  "formatAnswer ''TCP keeps a connection and retransmits; UDP sends datagrams.''
     = ''TCP keeps a connection and retransmits; UDP sends datagrams.''"
  "formatAnswer ''TCP keeps a connection, orders and retransmits; UDP does neither.''
     = ''TCP keeps a connection, orders and retransmits; UDP does neither.''"
  "formatAnswer ''Use a token bucket per client.'' = ''Use a token bucket per client.''"
  "formatAnswer ''Use a token bucket per client, kept in a shared store.''
     = ''Use a token bucket per client, kept in a shared store.''"
  "formatAnswer ''Use a token bucket per client, kept in a shared store with expiry.''
     = ''Use a token bucket per client, kept in a shared store with expiry.''"
  by code_simp+

lemmas run_defs =
  exec_def start_def stop_def start_failed_def captureStarted_def initialize_def
  handleAudioChunk_enter_def handleAudioChunk_transcribed_def generateAnswers_settled_def
  transcribe_enter_def transcribe_exit_def setStatus_def notify_def
  addTranscriptionResult_def clearTranscription_def setCurrentQuestion_def
  setCurrentAnswers_def setGenerating_def promise_all3_def generateAnswer_def
  generateWithGroq_def new_InterviewPipeline_def new_ASRService_def ASR_DEFAULT_CONFIG_def
  new_QuestionDetectorService_def INITIAL_STATE_def sample_config_def sample_env_def
  transcription_A_def transcription_B_def Let_def

text \<open>
  Claim C1 on the source. The pipeline has no generation epoch: the continuation of
  \<^verbatim>\<open>generateAnswers\<close> writes its answers to the store without looking at the current
  question. In the run \<open>overlapping_questions\<close> question B is detected, clears the
  answers and becomes the current question while the generation for A is pending. The
  generation for B settles first and B's answers are stored; then the generation for A
  settles. At the end nothing is pending, the current question is B and the current
  answers are the ones generated for A.
\<close>

theorem C1_late_answers_overwrite:
  "pending_questions (exec (new_InterviewPipeline sample_config True) overlapping_questions)
     = [(1, ''What is the difference between TCP and UDP?''),
        (2, ''How would you design a rate limiter?'')] \<and>
   map_option ga_text (ans_short (currentAnswers (store
     (exec (new_InterviewPipeline sample_config True)
        (overlapping_questions @ [Ev_generated 2 [short, medium, long] replies_B])))))
     = Some ''Use a token bucket per client.'' \<and>
   map_option q_text (currentQuestion (store
     (exec (new_InterviewPipeline sample_config True)
        (overlapping_questions @
           [Ev_generated 2 [short, medium, long] replies_B,
            Ev_generated 1 [short, medium, long] replies_ok]))))
     = Some ''How would you design a rate limiter?'' \<and>
   map_option ga_text (ans_short (currentAnswers (store
     (exec (new_InterviewPipeline sample_config True)
        (overlapping_questions @
           [Ev_generated 2 [short, medium, long] replies_B,
            Ev_generated 1 [short, medium, long] replies_ok])))))
     = Some ''TCP is reliable, UDP is not.'' \<and>
   pending_questions
     (exec (new_InterviewPipeline sample_config True)
        (overlapping_questions @
           [Ev_generated 2 [short, medium, long] replies_B,
            Ev_generated 1 [short, medium, long] replies_ok]))
     = []"
proof -
  let ?A = "''What is the difference between TCP and UDP?''"
  let ?B = "''How would you design a rate limiter?''"
  obtain qA where qA: "analyzeForQuestion 10000 ?A = Some qA" "q_text qA = ?A"
    using analyzeForQuestion_Some [OF sample_A_facts(3), of 10000] sample_A_facts(4) by auto
  obtain qB where qB: "analyzeForQuestion 13000 ?B = Some qB" "q_text qB = ?B"
    using analyzeForQuestion_Some [OF sample_B_facts(3), of 13000] sample_B_facts(4) by auto
  show ?thesis
    by (simp add: run_defs overlapping_questions_def pending_questions_def
        detectQuestion_unfold buffer_after_A buffer_after_B sample_A_facts(2)
        sample_B_facts(2) qA qB formatAnswer_samples)
qed

text \<open>
  Claim C3 on the source. \<^verbatim>\<open>handleAudioChunk\<close> reads \<^verbatim>\<open>isRunning\<close> once, on entry;
  its continuations after the two \<^verbatim>\<open>await\<close>s do not read it again. In the run
  \<open>stop_during_transcription\<close> the observers have received four status changes, the
  last one for \<^verbatim>\<open>idle\<close>. When the transcription and then the generation settle, the
  pipeline is not running, and yet \<^verbatim>\<open>onTranscription\<close>, \<^verbatim>\<open>onQuestionDetected\<close> and
  \<^verbatim>\<open>onAnswerGenerated\<close> are invoked, the current question and the current answers are
  written, and the status ends as \<^verbatim>\<open>listening\<close>.
\<close>

theorem C3_callbacks_after_stop:
  "observed (exec (new_InterviewPipeline sample_config True) stop_during_transcription)
     = [OnStatusChange initializing, OnStatusChange listening, OnStatusChange transcribing,
        OnStatusChange idle] \<and>
   \<not> isRunning (exec (new_InterviewPipeline sample_config True) stop_during_transcription) \<and>
   currentQuestion (store
     (exec (new_InterviewPipeline sample_config True) stop_during_transcription)) = None \<and>
   \<not> isRunning (exec (new_InterviewPipeline sample_config True)
       (stop_during_transcription @
          [Ev_transcribed 1 (Inr (Some transcription_A)) 10000 10000,
           Ev_generated 1 [short, medium, long] replies_ok])) \<and>
   take 5 (observed (exec (new_InterviewPipeline sample_config True)
       (stop_during_transcription @
          [Ev_transcribed 1 (Inr (Some transcription_A)) 10000 10000,
           Ev_generated 1 [short, medium, long] replies_ok])))
     = [OnStatusChange initializing, OnStatusChange listening, OnStatusChange transcribing,
        OnStatusChange idle, OnTranscription transcription_A] \<and>
   length (filter is_OnQuestionDetected
     (drop 4 (observed (exec (new_InterviewPipeline sample_config True)
       (stop_during_transcription @
          [Ev_transcribed 1 (Inr (Some transcription_A)) 10000 10000,
           Ev_generated 1 [short, medium, long] replies_ok]))))) = 1 \<and>
   length (filter is_OnAnswerGenerated
     (drop 4 (observed (exec (new_InterviewPipeline sample_config True)
       (stop_during_transcription @
          [Ev_transcribed 1 (Inr (Some transcription_A)) 10000 10000,
           Ev_generated 1 [short, medium, long] replies_ok]))))) = 1 \<and>
   map_option q_text (currentQuestion (store
     (exec (new_InterviewPipeline sample_config True)
       (stop_during_transcription @
          [Ev_transcribed 1 (Inr (Some transcription_A)) 10000 10000,
           Ev_generated 1 [short, medium, long] replies_ok]))))
     = Some ''What is the difference between TCP and UDP?'' \<and>
   map_option ga_text (ans_medium (currentAnswers (store
     (exec (new_InterviewPipeline sample_config True)
       (stop_during_transcription @
          [Ev_transcribed 1 (Inr (Some transcription_A)) 10000 10000,
           Ev_generated 1 [short, medium, long] replies_ok])))))
     = Some ''TCP keeps a connection and retransmits; UDP sends datagrams.'' \<and>
   status (exec (new_InterviewPipeline sample_config True)
       (stop_during_transcription @
          [Ev_transcribed 1 (Inr (Some transcription_A)) 10000 10000,
           Ev_generated 1 [short, medium, long] replies_ok])) = listening"
proof -
  let ?A = "''What is the difference between TCP and UDP?''"
  obtain qA where qA: "analyzeForQuestion 10000 ?A = Some qA" "q_text qA = ?A"
    using analyzeForQuestion_Some [OF sample_A_facts(3), of 10000] sample_A_facts(4) by auto
  show ?thesis
    by (simp add: run_defs stop_during_transcription_def detectQuestion_unfold buffer_after_A
        sample_A_facts(2) qA formatAnswer_samples)
qed

text \<open>The guard on entry: once the pipeline is not running, an arriving chunk changes nothing.\<close>

lemma chunk_ignored_when_stopped:
  "\<not> isRunning p \<Longrightarrow> step p (Ev_chunk k) = p"
  by (simp add: handleAudioChunk_enter_def)

lemma stop_not_running: "\<not> isRunning (stop p)"
  by (simp add: stop_def setStatus_def)

end
